theory Spec2Isabelle
  imports Main
begin

section \<open>JavaScript values\<close>

text \<open>
  A \<open>dataValues.DataValue\<close> object, as far as the widget looks at it: the object's
  identity (\<open>dv_ref\<close>, what \<open>===\<close> compares), the result of \<open>getType()\<close> and the
  string \<open>JSON.stringify( value.toJSON() )\<close>.
\<close>

record dataValue =
  dv_ref :: nat
  dv_type :: string
  dv_json :: string

text \<open>
  The values that travel through the widget's untyped interfaces. Numbers are integers
  (no NaN) and objects are compared by reference, so \<open>===\<close> is equality on this type
  and \<open>!==\<close> its negation.
\<close>

datatype jsval =
    Undefined
  | Null
  | Boolean bool
  | Number int
  | Str string
  | Object nat
  | DV dataValue

fun truthy :: "jsval \<Rightarrow> bool" where
  "truthy Undefined = False"
| "truthy Null = False"
| "truthy (Boolean b) = b"
| "truthy (Number n) = (n \<noteq> 0)"
| "truthy (Str s) = (s \<noteq> [])"
| "truthy (Object r) = True"
| "truthy (DV d) = True"

fun instanceof_DataValue :: "jsval \<Rightarrow> bool" where
  "instanceof_DataValue (DV d) = True"
| "instanceof_DataValue v = False"

fun truthy_string :: "string option \<Rightarrow> bool" where
  "truthy_string None = False"
| "truthy_string (Some s) = (s \<noteq> [])"

fun js_of :: "dataValue option \<Rightarrow> jsval" where
  "js_of None = Null"
| "js_of (Some d) = DV d"

fun dataValue_of :: "jsval \<Rightarrow> dataValue option" where
  "dataValue_of (DV d) = Some d"
| "dataValue_of v = None"

text \<open>
  Plain objects used as option bags (\<open>valueCharacteristics()\<close>): the keys in
  enumeration order with their values; reading a missing key gives \<open>undefined\<close>.
\<close>

type_synonym chars = "(string \<times> jsval) list"

definition member_of :: "chars \<Rightarrow> string \<Rightarrow> jsval" where
  "member_of obj k = (case map_of obj k of None \<Rightarrow> Undefined | Some v \<Rightarrow> v)"

text \<open>Structural equality of two values: both empty, or the same serialized form.\<close>

fun sameSerialization :: "dataValue option \<Rightarrow> dataValue option \<Rightarrow> bool" where
  "sameSerialization None None = True"
| "sameSerialization (Some a) (Some b) = (dv_json a = dv_json b)"
| "sameSerialization a b = False"

section \<open>The document\<close>

text \<open>
  DOM nodes are held in a store indexed by reference, since the widget's \<open>$value\<close> and
  its expert's \<open>$viewPort\<close> are the same node. A node has its CSS classes and its
  children; a child is a piece of markup or another node.
\<close>

datatype child = Markup jsval | NodeRef nat

record node =
  classes :: "string list"
  children :: "child list"

type_synonym dom = "nat \<Rightarrow> node"

fun is_Markup :: "child \<Rightarrow> bool" where
  "is_Markup (Markup m) = True"
| "is_Markup (NodeRef r) = False"

text \<open>
  jQuery is not part of the repository; these are its documented effects.
  \<open>.html( x )\<close> replaces all children (with nothing for \<open>null\<close>, \<open>false\<close> and the
  empty string) and does nothing when \<open>x\<close> is \<open>undefined\<close>.
\<close>

definition jq_addClass :: "string \<Rightarrow> node \<Rightarrow> node" where
  "jq_addClass c n =
     (if c = [] \<or> c \<in> set (classes n) then n else n\<lparr>classes := classes n @ [c]\<rparr>)"

definition jq_removeClass :: "string \<Rightarrow> node \<Rightarrow> node" where
  "jq_removeClass c n = (if c = [] then n else n\<lparr>classes := removeAll c (classes n)\<rparr>)"

definition jq_empty :: "node \<Rightarrow> node" where
  "jq_empty n = n\<lparr>children := []\<rparr>"

fun jq_html :: "jsval \<Rightarrow> node \<Rightarrow> node" where
  "jq_html Undefined n = n"
| "jq_html Null n = n\<lparr>children := []\<rparr>"
| "jq_html (Boolean False) n = n\<lparr>children := []\<rparr>"
| "jq_html (Str s) n = n\<lparr>children := (if s = [] then [] else [Markup (Str s)])\<rparr>"
| "jq_html v n = n\<lparr>children := [Markup v]\<rparr>"

definition jq_html_node :: "nat \<Rightarrow> node \<Rightarrow> node" where
  "jq_html_node r n = n\<lparr>children := [NodeRef r]\<rparr>"

definition jq_detach :: "nat \<Rightarrow> dom \<Rightarrow> dom" where
  "jq_detach r d = (\<lambda>p. (d p)\<lparr>children := removeAll (NodeRef r) (children (d p))\<rparr>)"

section \<open>jQuery.valueview.Expert\<close>

datatype ViewState = ViewState
datatype Notifier = Notifier
datatype MessageProvider = MessageProvider

text \<open>
  An extension registered with \<open>addExtension\<close>: a bundle of callbacks. \<open>ext_hooks\<close>
  are the callbacks the bundle defines; \<open>ext_calls\<close> logs the ones invoked so far.
\<close>

record extension =
  ext_name :: string
  ext_hooks :: "string list"
  ext_calls :: "string list"

text \<open>
  Modelled from the spec: \<open>util.Extendable.callExtensions\<close> is not under src/. The
  extensions are an ordered list of callback bundles (init/draw/destroy) invoked
  sequentially; a bundle that lacks the callback is skipped. The callbacks are taken
  to return normally.
\<close>

definition callExtensions :: "string \<Rightarrow> extension list \<Rightarrow> extension list" where
  "callExtensions name exts =
     map (\<lambda>x. if name \<in> set (ext_hooks x) then x\<lparr>ext_calls := ext_calls x @ [name]\<rparr> else x) exts"

record Expert =
  uiBaseClass :: string
  viewPort :: "nat option"
  u_viewState :: "ViewState option"
  u_viewNotifier :: "Notifier option"
  u_options :: "chars option"
  u_messageProvider :: "MessageProvider option"
  u_extendable :: "extension list"

text \<open>
  \<open>Expert.prototype.init\<close> and \<open>Expert.prototype.destroy\<close>. The field names are the
  source's with \<open>u_\<close> for the leading underscore and \<open>viewPort\<close> for \<open>$viewPort\<close>.
  \<open>init\<close> on an expert without a view port dereferences \<open>null\<close>: the result is \<open>None\<close>.
\<close>

definition Expert_init :: "'a Expert_scheme \<Rightarrow> dom \<Rightarrow> ('a Expert_scheme \<times> dom) option" where
  "Expert_init this d =
     (case viewPort this of
        None \<Rightarrow> None
      | Some vp \<Rightarrow>
          Some (this\<lparr>u_extendable := callExtensions ''init'' (u_extendable this)\<rparr>,
                d(vp := jq_addClass (uiBaseClass this) (d vp))))"

definition Expert_destroy :: "'a Expert_scheme \<Rightarrow> dom \<Rightarrow> 'a Expert_scheme \<times> dom" where
  "Expert_destroy this d =
     (case viewPort this of
        None \<Rightarrow> (this, d)
      | Some vp \<Rightarrow>
          (this\<lparr>u_extendable := callExtensions ''destroy'' (u_extendable this),
                 viewPort := None,
                 u_viewState := None,
                 u_viewNotifier := None,
                 u_messageProvider := None,
                 u_options := None\<rparr>,
           d(vp := jq_empty (jq_removeClass (uiBaseClass this) (d vp)))))"

text \<open>\<open>Expert.prototype.draw\<close>: the base class only calls the extensions.\<close>

definition Expert_draw :: "'a Expert_scheme \<Rightarrow> 'a Expert_scheme" where
  "Expert_draw this = this\<lparr>u_extendable := callExtensions ''draw'' (u_extendable this)\<rparr>"

section \<open>The collaborators of the valueview widget\<close>

text \<open>
  Concrete experts are defined outside src/. An expert constructor is described by what
  the widget observes of it: its identity (\<open>ctor_ref\<close>), the \<open>uiBaseClass\<close> it was
  defined with, whether its instances carry a \<open>preview\<close>, the result of
  \<open>prototype.valueCharacteristics()\<close>, the raw value of a fresh instance and whether the
  promise returned by its \<open>draw()\<close> is resolved or rejected.
\<close>

record expertConstructor =
  ctor_ref :: nat
  ctor_uiBaseClass :: string
  ctor_hasPreview :: bool
  ctor_valueCharacteristics :: chars
  ctor_rawValue :: jsval
  ctor_drawResolves :: bool

text \<open>The preview of an expert: what it was last told to show.\<close>

datatype preview = PreviewBlank | PreviewSpinner | PreviewContent jsval

record concreteExpert = Expert +
  ex_ref :: nat
  ex_constructor :: expertConstructor
  ex_rawValue :: jsval
  ex_valueCharacteristics :: chars
  ex_preview :: "preview option"

text \<open>
  An option that should hold a store: absent (\<open>null\<close>), some other object, or an
  instance of the store class. The expert store carries its \<open>getExpert\<close>, taken to
  return a constructor or \<open>null\<close>. The stores of parsers and formatters are libraries
  outside the repository: \<open>getParser\<close> and \<open>getFormatter\<close> of an instance are taken to
  return a constructor, and what the parser and the formatter answer is an input of the
  model. The \<open>value\<close> option is of its documented type, a DataValue or \<open>null\<close>;
  \<open>contentLanguages\<close> and \<open>messageProvider\<close> are only handed on to the experts and are
  left out.
\<close>

datatype 'a store = Missing | Foreign | Instance 'a

fun is_Missing :: "'a store \<Rightarrow> bool" where
  "is_Missing Missing = True"
| "is_Missing x = False"

record options =
  expertStore :: "(string option \<Rightarrow> string option \<Rightarrow> expertConstructor option) store"
  parserStore :: "unit store"
  formatterStore :: "unit store"
  dataTypeId :: "string option"
  dataValueType :: "string option"
  option_value :: "dataValue option"
  language :: "string option"
  autoStartEditing :: bool
  parseDelay :: nat

text \<open>The \<open>options\<close> member of the widget prototype (a \<open>language\<close> of \<open>None\<close> is not a string).\<close>

definition default_options :: options where
  "default_options =
     \<lparr>expertStore = Missing, parserStore = Missing, formatterStore = Missing,
      dataTypeId = None, dataValueType = None, option_value = None, language = None,
      autoStartEditing = False, parseDelay = 300\<rparr>"

text \<open>\<open>jQuery.valueview.experts\<close>, as far as the widget names it.\<close>

record expertsNamespace =
  EmptyValue :: expertConstructor
  UnsupportedValue :: expertConstructor

text \<open>A parser or formatter instance: what it was instantiated for and with.\<close>

record service =
  sv_dataValueType :: "string option"
  sv_dataTypeId :: "string option"
  sv_lang :: "string option"
  sv_options :: chars

type_synonym trigger = "string \<times> jsval list"

text \<open>
  What is in flight. A timer set by \<open>setTimeout\<close> holds what its closure captured.
  A request to the parser or the formatter holds its arguments and stands for the
  callbacks attached to its promise; \<open>fr_callbacks\<close> says which closures those are:
  the ones of \<open>_setValue\<close>, the ones of \<open>_updateValue\<close>, or the one \<open>drawContent\<close>
  attaches to \<open>_updateTextValue()\<close>, with the callbacks waiting on \<open>drawContent\<close>'s own
  promise.
\<close>

record timer =
  t_ref :: nat
  t_delay :: nat
  t_rawValue :: jsval
  t_expert :: nat
  t_valueParser :: service

record parseRequest =
  pr_ref :: nat
  pr_rawValue :: jsval
  pr_valueParser :: service

datatype formatCallbacks =
    SetValueCallbacks
  | UpdateValueCallbacks
  | TextValueCallbacks "trigger list"

record formatRequest =
  fr_ref :: nat
  fr_dataValue :: dataValue
  fr_dataTypeId :: "string option"
  fr_outputFormat :: string
  fr_valueFormatter :: service
  fr_callbacks :: formatCallbacks

section \<open>The valueview widget\<close>

text \<open>
  The members of the widget (\<open>u_\<close> for one leading underscore, \<open>uu_\<close> for two,
  \<open>dollar_value\<close> for \<open>$value\<close>), the document, what is in flight, the counter new
  references are taken from, and the events triggered so far.
\<close>

record valueview =
  u_value :: "dataValue option"
  u_formattedValue :: jsval
  u_textValue :: jsval
  u_initialValue :: "dataValue option"
  u_isInEditMode :: bool
  u_expert :: "concreteExpert option"
  u_expertConstructor :: "expertConstructor option"
  u_parseTimer :: "nat option"
  uu_lastUpdateValue :: jsval
  uu_lastValueCharacteristics :: "chars option"
  options :: options
  experts :: expertsNamespace
  element :: nat
  dollar_value :: nat
  document :: dom
  timers :: "timer list"
  parseRequests :: "parseRequest list"
  formatRequests :: "formatRequest list"
  nextRef :: nat
  triggered :: "trigger list"

text \<open>
  A call returns or throws, and in both cases leaves the widget in some state.
\<close>

datatype error = Error string | TypeError string

datatype 'a completion = Return 'a | Throw error

type_synonym 'a outcome = "'a completion \<times> valueview"

definition andThen :: "'a outcome \<Rightarrow> ('a \<Rightarrow> valueview \<Rightarrow> 'b outcome) \<Rightarrow> 'b outcome" where
  "andThen r k = (case r of (Return x, s) \<Rightarrow> k x s | (Throw e, s) \<Rightarrow> (Throw e, s))"

text \<open>
  A \<open>jQuery.Deferred\<close>: once resolved or rejected it stays so. Callbacks run at the
  moment it is settled, or at once when attached to a settled one (jQuery before 3.0).
\<close>

datatype promise = Pending | Resolved jsval | Rejected jsval

fun resolve :: "jsval \<Rightarrow> promise \<Rightarrow> promise" where
  "resolve v Pending = Resolved v"
| "resolve v p = p"

fun reject :: "jsval \<Rightarrow> promise \<Rightarrow> promise" where
  "reject m Pending = Rejected m"
| "reject m p = p"

definition u_trigger :: "string \<Rightarrow> jsval list \<Rightarrow> valueview \<Rightarrow> valueview" where
  "u_trigger name args this = this\<lparr>triggered := triggered this @ [(name, args)]\<rparr>"

definition fire :: "trigger list \<Rightarrow> valueview \<Rightarrow> valueview" where
  "fire cbs this = this\<lparr>triggered := triggered this @ cbs\<rparr>"

definition isInEditMode :: "valueview \<Rightarrow> bool" where
  "isInEditMode this = u_isInEditMode this"

text \<open>\<open>initialValue()\<close>; \<open>this.value()\<close> without an argument reads \<open>_value\<close>.\<close>

definition initialValue :: "valueview \<Rightarrow> dataValue option" where
  "initialValue this = (if \<not> isInEditMode this then u_value this else u_initialValue this)"

definition getFormattedValue :: "valueview \<Rightarrow> jsval" where
  "getFormattedValue this = u_formattedValue this"

definition getTextValue :: "valueview \<Rightarrow> jsval outcome" where
  "getTextValue this =
     (if u_textValue this = Null then (Throw (Error ''This cannot happen''), this)
      else (Return (u_textValue this), this))"

definition isEmpty :: "valueview \<Rightarrow> bool" where
  "isEmpty this = (u_value this = None)"

definition u_determineDataValueType :: "valueview \<Rightarrow> string option" where
  "u_determineDataValueType this =
     (case u_value this of
        Some v \<Rightarrow>
          (if \<not> truthy_string (dataValueType (options this)) then Some (dv_type v)
           else dataValueType (options this))
      | None \<Rightarrow> dataValueType (options this))"

definition u_updateExpertConstructor :: "valueview \<Rightarrow> unit outcome" where
  "u_updateExpertConstructor this =
     (case expertStore (options this) of
        Instance getExpert \<Rightarrow>
          (let dvType = u_determineDataValueType this;
               s1 = this\<lparr>u_expertConstructor := Some (EmptyValue (experts this))\<rparr>
           in if truthy_string dvType \<or> truthy_string (dataTypeId (options this))
              then (Return (),
                    s1\<lparr>u_expertConstructor :=
                         Some (case getExpert dvType (dataTypeId (options this)) of
                                 Some c \<Rightarrow> c
                               | None \<Rightarrow> UnsupportedValue (experts this))\<rparr>)
              else (Return (), s1))
      | _ \<Rightarrow> (Throw (Error ''No ExpertStore set in valueview's \"expertStore\" option''), this))"

definition valueCharacteristics :: "valueview \<Rightarrow> chars" where
  "valueCharacteristics this =
     (case u_expert this of
        Some e \<Rightarrow> ex_valueCharacteristics e
      | None \<Rightarrow>
          (case u_expertConstructor this of
             Some c \<Rightarrow> ctor_valueCharacteristics c
           | None \<Rightarrow> []))"

definition u_instantiateParser :: "chars \<Rightarrow> valueview \<Rightarrow> service outcome" where
  "u_instantiateParser additionalParserOptions this =
     (case parserStore (options this) of
        Instance _ \<Rightarrow>
          (Return \<lparr>sv_dataValueType = u_determineDataValueType this,
                   sv_dataTypeId = dataTypeId (options this),
                   sv_lang = language (options this),
                   sv_options = additionalParserOptions\<rparr>, this)
      | _ \<Rightarrow> (Throw (Error ''No value parser store in valueview's options specified''), this))"

definition u_instantiateFormatter :: "chars \<Rightarrow> valueview \<Rightarrow> service outcome" where
  "u_instantiateFormatter additionalFormatterOptions this =
     (case formatterStore (options this) of
        Instance _ \<Rightarrow>
          (Return \<lparr>sv_dataValueType = u_determineDataValueType this,
                   sv_dataTypeId = dataTypeId (options this),
                   sv_lang = language (options this),
                   sv_options = additionalFormatterOptions\<rparr>, this)
      | _ \<Rightarrow> (Throw (Error ''No value formatter store in valueview's options specified''), this))"

definition u_renderError :: "jsval \<Rightarrow> valueview \<Rightarrow> valueview" where
  "u_renderError message this =
     (case u_expert this of
        None \<Rightarrow> this
      | Some e \<Rightarrow>
          (case ex_preview e of
             None \<Rightarrow> this
           | Some p \<Rightarrow> this\<lparr>u_expert := Some (e\<lparr>ex_preview := Some (PreviewContent message)\<rparr>)\<rparr>))"

definition u_destroyExpert :: "valueview \<Rightarrow> unit outcome" where
  "u_destroyExpert this =
     (case u_expert this of
        None \<Rightarrow> (Throw (TypeError ''this._expert is null''), this)
      | Some e \<Rightarrow>
          (Return (), this\<lparr>document := snd (Expert_destroy e (document this)), u_expert := None\<rparr>))"

text \<open>
  \<open>new this._expertConstructor( this.$value, this.viewState(), this.viewNotifier(), ... )\<close>:
  the base constructor's assignments, and the instance as its constructor describes it.
\<close>

definition newExpert :: "expertConstructor \<Rightarrow> nat \<Rightarrow> nat \<Rightarrow> concreteExpert" where
  "newExpert c r vp =
     \<lparr>uiBaseClass = ctor_uiBaseClass c, viewPort = Some vp, u_viewState = Some ViewState,
      u_viewNotifier = Some Notifier, u_options = Some [],
      u_messageProvider = Some MessageProvider, u_extendable = [],
      ex_ref = r, ex_constructor = c, ex_rawValue = ctor_rawValue c,
      ex_valueCharacteristics = ctor_valueCharacteristics c,
      ex_preview = (if ctor_hasPreview c then Some PreviewBlank else None)\<rparr>"

definition u_updateExpert :: "valueview \<Rightarrow> unit outcome" where
  "u_updateExpert this =
     (if (case (u_expert this, u_expertConstructor this) of
            (Some e, Some c) \<Rightarrow> ex_constructor e = c
          | _ \<Rightarrow> False)
      then (Return (), this)
      else andThen (if u_expert this \<noteq> None then u_destroyExpert this else (Return (), this))
        (\<lambda>_ s1.
          (case u_expertConstructor s1 of
             None \<Rightarrow> (Return (), s1)
           | Some c \<Rightarrow>
               (let r = Suc (nextRef s1);
                    e = newExpert c r (dollar_value s1)
                in (case Expert_init e (document s1) of
                      None \<Rightarrow> (Throw (TypeError ''this.$viewPort is null''), s1)
                    | Some (e', d') \<Rightarrow>
                        (Return (), s1\<lparr>u_expert := Some e', document := d', nextRef := r\<rparr>))))))"

definition drawStaticContent :: "valueview \<Rightarrow> valueview" where
  "drawStaticContent this =
     this\<lparr>document := (document this)
            (element this := jq_html (getFormattedValue this) (document this (element this)))\<rparr>"

text \<open>
  The callback \<open>drawContent\<close> attaches to \<open>_updateTextValue()\<close>; \<open>cbs\<close> are the
  callbacks waiting on the promise \<open>drawContent\<close> returned.
\<close>

definition drawContent_then :: "trigger list \<Rightarrow> valueview \<Rightarrow> unit outcome" where
  "drawContent_then cbs this =
     (if \<not> isInEditMode this then (Return (), this)
      else andThen (u_updateExpert this)
        (\<lambda>_ s1.
          (case u_expert s1 of
             None \<Rightarrow> (Throw (TypeError ''self._expert is null''), s1)
           | Some e \<Rightarrow>
               (let s2 = s1\<lparr>u_expert := Some (Expert_draw e)\<rparr>
                in if ctor_drawResolves (ex_constructor e) then (Return (), fire cbs s2)
                   else (Return (), s2)))))"

definition normalized_dataTypeId :: "valueview \<Rightarrow> string option" where
  "normalized_dataTypeId this =
     (if truthy_string (dataTypeId (options this)) then dataTypeId (options this) else None)"

text \<open>
  \<open>_updateTextValue()\<close>, given the callback that will be attached to its promise. It
  returns whether the promise is already resolved.
\<close>

definition u_updateTextValue :: "trigger list \<Rightarrow> valueview \<Rightarrow> bool outcome" where
  "u_updateTextValue cbs this =
     (case u_value this of
        None \<Rightarrow> (Return True, this\<lparr>u_textValue := Str []\<rparr>)
      | Some v \<Rightarrow>
          andThen (u_instantiateFormatter (valueCharacteristics this) this)
            (\<lambda>valueFormatter s1.
              (let r = Suc (nextRef s1)
               in (Return False,
                   s1\<lparr>nextRef := r,
                      formatRequests := formatRequests s1 @
                        [\<lparr>fr_ref = r, fr_dataValue = v, fr_dataTypeId = normalized_dataTypeId s1,
                          fr_outputFormat = ''text/plain'', fr_valueFormatter = valueFormatter,
                          fr_callbacks = TextValueCallbacks cbs\<rparr>]\<rparr>))))"

definition drawContent :: "trigger list \<Rightarrow> valueview \<Rightarrow> unit outcome" where
  "drawContent cbs this =
     (if isInEditMode this
      then andThen (u_updateTextValue cbs this)
             (\<lambda>resolved s1. if resolved then drawContent_then cbs s1 else (Return (), s1))
      else (Return (), fire cbs (drawStaticContent this)))"

text \<open>
  \<open>draw()\<close>, with the callbacks its caller attaches to the promise it returns. The CSS
  of the disabled state (\<open>jQuery.Widget.option\<close>) is not modelled.
\<close>

definition draw :: "trigger list \<Rightarrow> valueview \<Rightarrow> unit outcome" where
  "draw cbs this =
     (let el = document this (element this);
          el' = (if isInEditMode this
                 then jq_removeClass ''valueview-instaticmode'' (jq_addClass ''valueview-ineditmode'' el)
                 else jq_removeClass ''valueview-ineditmode'' (jq_addClass ''valueview-instaticmode'' el))
      in drawContent ((''afterdraw'', []) # cbs)
           (this\<lparr>document := (document this)(element this := el')\<rparr>))"

text \<open>
  \<open>_formatValue( dataValue )\<close>, with the callbacks its caller attaches to the promise
  it returns.
\<close>

definition u_formatValue :: "dataValue \<Rightarrow> formatCallbacks \<Rightarrow> valueview \<Rightarrow> unit outcome" where
  "u_formatValue v callbacks this =
     andThen (u_instantiateFormatter (valueCharacteristics this) this)
       (\<lambda>valueFormatter s1.
         (let r = Suc (nextRef s1)
          in (Return (),
              s1\<lparr>nextRef := r,
                 formatRequests := formatRequests s1 @
                   [\<lparr>fr_ref = r, fr_dataValue = v, fr_dataTypeId = normalized_dataTypeId s1,
                     fr_outputFormat = ''text/html'', fr_valueFormatter = valueFormatter,
                     fr_callbacks = callbacks\<rparr>]\<rparr>)))"

definition u_setValue :: "jsval \<Rightarrow> valueview \<Rightarrow> unit outcome" where
  "u_setValue v this =
     (if v \<noteq> Null \<and> \<not> instanceof_DataValue v
      then (Throw (Error ''Instance of dataValues.DataValue required for setting a value''), this)
      else if (case (u_value this, dataValue_of v) of
                 (Some cur, Some new) \<Rightarrow> dv_json new = dv_json cur
               | _ \<Rightarrow> False)
      then (Return (), this)
      else andThen (u_updateExpertConstructor (this\<lparr>u_value := dataValue_of v\<rparr>))
        (\<lambda>_ s1.
          (case u_value s1 of
             None \<Rightarrow> draw [] (s1\<lparr>u_formattedValue := Null\<rparr>)
           | Some d \<Rightarrow> u_formatValue d SetValueCallbacks s1)))"

text \<open>\<open>value( value )\<close>: the getter when the argument is \<open>undefined\<close>, else the setter.\<close>

definition value_fn :: "jsval \<Rightarrow> valueview \<Rightarrow> jsval outcome" where
  "value_fn v this =
     (if v = Undefined then (Return (js_of (u_value this)), this)
      else if v \<noteq> Null \<and> \<not> instanceof_DataValue v
      then (Throw (Error ''The given value has to be an instance of dataValues.DataValue or null''),
            this)
      else andThen (u_setValue v this) (\<lambda>_ s1. (Return Undefined, s1)))"

definition startEditing :: "valueview \<Rightarrow> unit outcome" where
  "startEditing this =
     (if isInEditMode this then (Return (), this)
      else (let s1 = this\<lparr>u_initialValue := u_value this, u_isInEditMode := True\<rparr>;
                s2 = s1\<lparr>document := (document s1)
                         (element s1 := jq_html_node (dollar_value s1) (document s1 (element s1)))\<rparr>
            in draw [(''afterstartediting'', [])] s2))"

definition stopEditing :: "jsval \<Rightarrow> valueview \<Rightarrow> unit outcome" where
  "stopEditing dropValue this =
     (if \<not> isInEditMode this then (Return (), this)
      else andThen (if truthy dropValue then value_fn (js_of (initialValue this)) this
                    else (Return Undefined, this))
        (\<lambda>_ s1.
          (let s2 = s1\<lparr>u_initialValue := None, u_isInEditMode := False,
                       uu_lastValueCharacteristics := None\<rparr>
           in andThen (if u_expert s2 \<noteq> None then u_destroyExpert s2 else (Return (), s2))
                (\<lambda>_ s3.
                  draw [(''afterstopediting'', [Boolean (truthy dropValue)])]
                    (s3\<lparr>document := jq_detach (dollar_value s3) (document s3)\<rparr>)))))"

definition cancelEditing :: "valueview \<Rightarrow> unit outcome" where
  "cancelEditing this = stopEditing (Boolean True) this"

section \<open>The update cycle\<close>

text \<open>\<open>clearTimeout\<close> and the done and fail callbacks \<open>_updateValue\<close> attaches.\<close>

definition clearTimeout :: "nat \<Rightarrow> valueview \<Rightarrow> valueview" where
  "clearTimeout r this = this\<lparr>timers := filter (\<lambda>t. t_ref t \<noteq> r) (timers this)\<rparr>"

text \<open>
  \<open>_parseValue()\<close>. \<open>setTimeout\<close> hands out a positive handle; the closure it is given
  is kept as a \<open>timer\<close> and runs in \<open>timerFires\<close>.
\<close>

definition u_parseValue :: "valueview \<Rightarrow> promise outcome" where
  "u_parseValue this =
     (case u_expert this of
        None \<Rightarrow> (Throw (TypeError ''expert is null''), this)
      | Some expert \<Rightarrow>
          (let rawValue = ex_rawValue expert;
               s1 = u_trigger ''parse'' [] this
           in if rawValue = Null \<or> instanceof_DataValue rawValue
              then (Return (resolve rawValue Pending),
                    u_trigger ''afterparse'' [] (s1\<lparr>uu_lastUpdateValue := Undefined\<rparr>))
              else
                (let s2 = (case u_parseTimer s1 of
                             None \<Rightarrow> s1
                           | Some r \<Rightarrow> if r \<noteq> 0 then clearTimeout r s1 else s1)
                 in andThen (u_instantiateParser (valueCharacteristics s2) s2)
                      (\<lambda>valueParser s3.
                        (let s4 = s3\<lparr>uu_lastUpdateValue := rawValue\<rparr>;
                             r = Suc (nextRef s4)
                         in (Return Pending,
                             s4\<lparr>u_parseTimer := Some r, nextRef := r,
                                timers := timers s4 @
                                  [\<lparr>t_ref = r, t_delay = parseDelay (options s4),
                                    t_rawValue = rawValue, t_expert = ex_ref expert,
                                    t_valueParser = valueParser\<rparr>]\<rparr>))))))"

text \<open>The callbacks \<open>_updateValue\<close> attaches to the promise of \<open>_formatValue\<close>.\<close>

definition updateValue_format_callbacks :: "promise \<Rightarrow> valueview \<Rightarrow> unit outcome" where
  "updateValue_format_callbacks p self =
     (case p of
        Resolved formattedValue \<Rightarrow> drawContent [] (self\<lparr>u_formattedValue := formattedValue\<rparr>)
      | Rejected message \<Rightarrow>
          (if truthy message
           then (Return (), u_renderError message (self\<lparr>u_formattedValue := Null\<rparr>))
           else (Return (), self))
      | Pending \<Rightarrow> (Return (), self))"

text \<open>The callbacks \<open>_updateValue\<close> attaches to the promise of \<open>_parseValue\<close>.\<close>

definition updateValue_callbacks :: "promise \<Rightarrow> valueview \<Rightarrow> unit outcome" where
  "updateValue_callbacks p self =
     (case p of
        Resolved parsedValue \<Rightarrow>
          (let s1 = self\<lparr>u_value := dataValue_of parsedValue\<rparr>
           in (case u_value s1 of
                 None \<Rightarrow> drawContent [] (s1\<lparr>u_formattedValue := Null\<rparr>)
               | Some d \<Rightarrow> u_formatValue d UpdateValueCallbacks s1))
      | Rejected message \<Rightarrow>
          (if truthy message
           then (Return (), u_renderError message (self\<lparr>u_value := None\<rparr>))
           else (Return (), self))
      | Pending \<Rightarrow> (Return (), self))"

definition u_updateValue :: "valueview \<Rightarrow> unit outcome" where
  "u_updateValue this = andThen (u_parseValue this) updateValue_callbacks"

text \<open>The callbacks \<open>_setValue\<close> attaches to the promise of \<open>_formatValue\<close>.\<close>

definition setValue_callbacks :: "promise \<Rightarrow> valueview \<Rightarrow> unit outcome" where
  "setValue_callbacks p self =
     (case p of
        Resolved formattedValue \<Rightarrow> draw [] (self\<lparr>u_formattedValue := formattedValue\<rparr>)
      | Rejected message \<Rightarrow>
          (if truthy message then (Return (), u_renderError message self) else (Return (), self))
      | Pending \<Rightarrow> (Return (), self))"

text \<open>
  The timer set by \<open>_parseValue\<close> expires: the closure given to \<open>setTimeout\<close> runs and
  hands the raw value to the parser. The spinner is shown on the expert the closure
  captured; when that expert is no longer the widget's, it is outside the state.
\<close>

definition timerFires :: "nat \<Rightarrow> valueview \<Rightarrow> valueview" where
  "timerFires r this =
     (case find (\<lambda>t. t_ref t = r) (timers this) of
        None \<Rightarrow> this
      | Some t \<Rightarrow>
          (let s1 = this\<lparr>timers := filter (\<lambda>t. t_ref t \<noteq> r) (timers this)\<rparr>;
               s2 = (case u_expert s1 of
                       None \<Rightarrow> s1
                     | Some e \<Rightarrow>
                         (if ex_ref e = t_expert t \<and> ex_preview e \<noteq> None
                          then s1\<lparr>u_expert := Some (e\<lparr>ex_preview := Some PreviewSpinner\<rparr>)\<rparr>
                          else s1));
               q = Suc (nextRef s2)
           in s2\<lparr>nextRef := q,
                 parseRequests := parseRequests s2 @
                   [\<lparr>pr_ref = q, pr_rawValue = t_rawValue t,
                     pr_valueParser = t_valueParser t\<rparr>]\<rparr>))"

text \<open>
  The parser settles the promise of request \<open>r\<close>: the done, fail and always callbacks
  attached in \<open>_parseValue\<close> run, and through \<open>deferred\<close> those of \<open>_updateValue\<close>. An
  exception in a callback leaves through the parser's \<open>resolve\<close>, past \<open>always\<close>.
\<close>

datatype parseResponse = ParseDone jsval | ParseFail jsval

definition parserResponds :: "nat \<Rightarrow> parseResponse \<Rightarrow> valueview \<Rightarrow> unit outcome" where
  "parserResponds r response this =
     (case find (\<lambda>q. pr_ref q = r) (parseRequests this) of
        None \<Rightarrow> (Return (), this)
      | Some q \<Rightarrow>
          (let self = this\<lparr>parseRequests := filter (\<lambda>q. pr_ref q \<noteq> r) (parseRequests this)\<rparr>;
               rawValue = pr_rawValue q
           in (case response of
                 ParseDone parsedValue \<Rightarrow>
                   (if parsedValue \<noteq> Null \<and> \<not> instanceof_DataValue parsedValue
                    then (Throw (Error ''Unexpected value parser result''), self)
                    else
                      (let late = (uu_lastUpdateValue self = Undefined
                                   \<or> uu_lastUpdateValue self \<noteq> rawValue);
                           deferred = (if late then reject Undefined Pending else Pending);
                           s1 = (if late then self else self\<lparr>uu_lastUpdateValue := Undefined\<rparr>)
                       in andThen (updateValue_callbacks (resolve parsedValue deferred) s1)
                            (\<lambda>_ s2. (Return (), u_trigger ''afterparse'' [] s2))))
               | ParseFail message \<Rightarrow>
                   andThen (updateValue_callbacks (reject message Pending) self)
                     (\<lambda>_ s2. (Return (), u_trigger ''afterparse'' [] s2)))))"

text \<open>
  The formatter settles the promise of request \<open>r\<close>, with the formatted value and the
  value it says it formatted, or with a message.
\<close>

datatype formatResponse = FormatDone jsval jsval | FormatFail jsval

definition formatterResponds :: "nat \<Rightarrow> formatResponse \<Rightarrow> valueview \<Rightarrow> unit outcome" where
  "formatterResponds r response this =
     (case find (\<lambda>q. fr_ref q = r) (formatRequests this) of
        None \<Rightarrow> (Return (), this)
      | Some q \<Rightarrow>
          (let self = this\<lparr>formatRequests := filter (\<lambda>q. fr_ref q \<noteq> r) (formatRequests this)\<rparr>;
               dataValue = DV (fr_dataValue q);
               deferred =
                 (case response of
                    FormatDone formattedValue formattedDataValue \<Rightarrow>
                      (if dataValue = formattedDataValue then resolve formattedValue Pending
                       else reject Undefined Pending)
                  | FormatFail message \<Rightarrow> reject message Pending)
           in (case fr_callbacks q of
                 SetValueCallbacks \<Rightarrow>
                   andThen (setValue_callbacks deferred self)
                     (\<lambda>_ s1. (Return (), u_trigger ''afterformat'' [] s1))
               | UpdateValueCallbacks \<Rightarrow>
                   andThen (updateValue_format_callbacks deferred self)
                     (\<lambda>_ s1. (Return (), u_trigger ''afterformat'' [] s1))
               | TextValueCallbacks cbs \<Rightarrow>
                   (case deferred of
                      Resolved formattedValue \<Rightarrow>
                        drawContent_then cbs (self\<lparr>u_textValue := formattedValue\<rparr>)
                    | _ \<Rightarrow> (Return (), self)))))"

text \<open>The \<open>change\<close> callback of \<open>viewNotifier()\<close>.\<close>

definition differentValueCharacteristics :: "chars \<Rightarrow> chars \<Rightarrow> bool" where
  "differentValueCharacteristics newValueCharacteristics lastValueCharacteristics =
     (list_ex (\<lambda>i. member_of newValueCharacteristics i \<noteq> member_of lastValueCharacteristics i)
        (map fst newValueCharacteristics)
      \<or> list_ex (\<lambda>i. member_of newValueCharacteristics i \<noteq> member_of lastValueCharacteristics i)
          (map fst lastValueCharacteristics))"

definition changeDetected :: "valueview \<Rightarrow> bool outcome" where
  "changeDetected self =
     (case u_expert self of
        None \<Rightarrow> (Return False, self)
      | Some e \<Rightarrow>
          (if differentValueCharacteristics (ex_valueCharacteristics e)
                (case uu_lastValueCharacteristics self of None \<Rightarrow> [] | Some c \<Rightarrow> c)
           then (Return True, self)
           else andThen (getTextValue self) (\<lambda>t s. (Return (t \<noteq> ex_rawValue e), s))))"

definition viewNotifier_change :: "valueview \<Rightarrow> unit outcome" where
  "viewNotifier_change self =
     (case u_expert self of
        None \<Rightarrow> (Return (), self)
      | Some e \<Rightarrow>
          andThen (changeDetected self)
            (\<lambda>detected s.
              if detected
              then u_updateValue
                     (u_trigger ''change'' []
                        (s\<lparr>uu_lastValueCharacteristics := Some (ex_valueCharacteristics e)\<rparr>))
              else (Return (), s)))"

text \<open>
  The user changes the input of the active expert, which then sends the \<open>change\<close>
  notification.
\<close>

definition expertInput :: "jsval \<Rightarrow> chars \<Rightarrow> valueview \<Rightarrow> unit outcome" where
  "expertInput rawValue cs this =
     (case u_expert this of
        None \<Rightarrow> (Return (), this)
      | Some e \<Rightarrow>
          viewNotifier_change
            (this\<lparr>u_expert := Some (e\<lparr>ex_rawValue := rawValue, ex_valueCharacteristics := cs\<rparr>)\<rparr>))"

section \<open>Creation\<close>

text \<open>
  The widget before \<open>_create\<close>: the prototype's members. Its element is node 0 with the
  inner HTML \<open>html\<close>, and the \<open>div\<close> that \<open>_create\<close> makes for \<open>$value\<close> is node 1.
\<close>

definition prototype :: "options \<Rightarrow> expertsNamespace \<Rightarrow> string \<Rightarrow> valueview" where
  "prototype opts ns html =
     \<lparr>u_value = None, u_formattedValue = Null, u_textValue = Undefined, u_initialValue = None,
      u_isInEditMode = False, u_expert = None, u_expertConstructor = None, u_parseTimer = None,
      uu_lastUpdateValue = Undefined, uu_lastValueCharacteristics = None,
      options = opts, experts = ns, element = 0, dollar_value = 1,
      document = (\<lambda>r. \<lparr>classes = [], children = []\<rparr>)
        (0 := jq_html (Str html) \<lparr>classes = [], children = []\<rparr>),
      timers = [], parseRequests = [], formatRequests = [], nextRef = 1, triggered = []\<rparr>"

text \<open>\<open>_initValue( value )\<close>, given the result of \<open>this.element.html()\<close>.\<close>

definition u_initValue :: "string \<Rightarrow> dataValue option \<Rightarrow> valueview \<Rightarrow> unit outcome" where
  "u_initValue formattedValue v this =
     (if formattedValue = []
      then andThen (value_fn (js_of v) this) (\<lambda>_ s1. (Return (), s1))
      else andThen
             (u_updateExpertConstructor
                (this\<lparr>u_value := v, u_formattedValue := Str formattedValue\<rparr>))
             (\<lambda>_ s1. draw [] s1))"

definition u_create :: "options \<Rightarrow> expertsNamespace \<Rightarrow> string \<Rightarrow> unit outcome" where
  "u_create opts ns html =
     (let this = prototype opts ns html
      in if is_Missing (expertStore opts) \<or> is_Missing (parserStore opts)
            \<or> is_Missing (formatterStore opts) \<or> language opts = None
         then (Throw (Error ''Required option(s) not defined properly''), this)
         else
           (let s1 = this\<lparr>document := (document this)
                        (element this := jq_addClass ''valueview'' (document this (element this)),
                         dollar_value this := \<lparr>classes = [''valueview-value''], children = []\<rparr>)\<rparr>
            in andThen (u_initValue html (option_value opts) s1)
                 (\<lambda>_ s2. if autoStartEditing opts \<and> isEmpty s2 then startEditing s2
                          else (Return (), s2))))"

section \<open>Histories\<close>

text \<open>
  What can happen to a widget, one at a time (the code runs on a single thread): a call
  of its interface, an input to the active expert, the expiry of a timer, or the answer
  to a request in flight. After an exception the widget stays as the throw left it.
\<close>

datatype event =
    CallStartEditing
  | CallStopEditing jsval
  | CallCancelEditing
  | CallValue jsval
  | CallDraw
  | ExpertInput jsval chars
  | TimerFires nat
  | ParserResponds nat parseResponse
  | FormatterResponds nat formatResponse

fun step :: "event \<Rightarrow> valueview \<Rightarrow> valueview" where
  "step CallStartEditing this = snd (startEditing this)"
| "step (CallStopEditing dropValue) this = snd (stopEditing dropValue this)"
| "step CallCancelEditing this = snd (cancelEditing this)"
| "step (CallValue v) this = snd (value_fn v this)"
| "step CallDraw this = snd (draw [] this)"
| "step (ExpertInput rawValue cs) this = snd (expertInput rawValue cs this)"
| "step (TimerFires r) this = timerFires r this"
| "step (ParserResponds r response) this = snd (parserResponds r response this)"
| "step (FormatterResponds r response) this = snd (formatterResponds r response this)"

definition run :: "event list \<Rightarrow> valueview \<Rightarrow> valueview" where
  "run evs this = fold step evs this"

section \<open>Frames and examples\<close>

text \<open>
  What redrawing leaves alone (\<open>kept\<close>), and what setting or parsing a value leaves
  alone (\<open>valued\<close>).
\<close>

definition kept where
  "kept this =
     (u_value this, u_formattedValue this, u_initialValue this, u_isInEditMode this,
      u_expertConstructor this, u_parseTimer this, uu_lastUpdateValue this,
      uu_lastValueCharacteristics this, options this, experts this, element this,
      dollar_value this, timers this, parseRequests this)"

definition valued where
  "valued this =
     (u_initialValue this, u_isInEditMode this, u_parseTimer this, uu_lastUpdateValue this,
      uu_lastValueCharacteristics this, options this, experts this, element this,
      dollar_value this, timers this, parseRequests this)"

text \<open>A small installation: an expert for strings with a preview, and two values.\<close>

definition example_experts :: expertsNamespace where
  "example_experts =
     \<lparr>EmptyValue =
        \<lparr>ctor_ref = 0, ctor_uiBaseClass = ''valueview-expert-emptyvalue'',
         ctor_hasPreview = False, ctor_valueCharacteristics = [], ctor_rawValue = Null,
         ctor_drawResolves = True\<rparr>,
      UnsupportedValue =
        \<lparr>ctor_ref = 1, ctor_uiBaseClass = ''valueview-expert-unsupportedvalue'',
         ctor_hasPreview = False, ctor_valueCharacteristics = [], ctor_rawValue = Null,
         ctor_drawResolves = True\<rparr>\<rparr>"

definition example_StringValue :: expertConstructor where
  "example_StringValue =
     \<lparr>ctor_ref = 2, ctor_uiBaseClass = ''valueview-expert-stringvalue'',
      ctor_hasPreview = True, ctor_valueCharacteristics = [], ctor_rawValue = Str [],
      ctor_drawResolves = True\<rparr>"

definition example_options :: options where
  "example_options =
     default_options
       \<lparr>expertStore := Instance (\<lambda>t d. if t = Some ''string'' then Some example_StringValue else None),
        parserStore := Instance (), formatterStore := Instance (),
        dataValueType := Some ''string'', language := Some ''en''\<rparr>"

definition example_a :: dataValue where
  "example_a = \<lparr>dv_ref = 100, dv_type = ''string'', dv_json = ''{a}''\<rparr>"

definition example_a' :: dataValue where
  "example_a' = \<lparr>dv_ref = 101, dv_type = ''string'', dv_json = ''{a}''\<rparr>"

definition example_b :: dataValue where
  "example_b = \<lparr>dv_ref = 102, dv_type = ''string'', dv_json = ''{b}''\<rparr>"

text \<open>A widget created on an empty element, and the same widget showing \<open>example_a\<close>.\<close>

definition example_empty :: valueview where
  "example_empty = snd (u_create example_options example_experts [])"

definition example_static :: valueview where
  "example_static = example_empty\<lparr>u_value := Some example_a, u_formattedValue := Str ''a''\<rparr>"

text \<open>
  An expert of the base class with one extension, already initialised, and a document
  in which its view port (node 1) has been drawn into.
\<close>

definition example_expert :: Expert where
  "example_expert =
     \<lparr>uiBaseClass = ''valueview-expert-stringvalue'', viewPort = Some 1,
      u_viewState = Some ViewState, u_viewNotifier = Some Notifier, u_options = Some [],
      u_messageProvider = Some MessageProvider,
      u_extendable =
        [\<lparr>ext_name = ''LanguageSelector'', ext_hooks = [''init'', ''destroy''],
          ext_calls = [''init'']\<rparr>]\<rparr>"

definition example_document :: dom where
  "example_document =
     (\<lambda>r. \<lparr>classes = [], children = []\<rparr>)
       (1 := \<lparr>classes = [''valueview-value'', ''valueview-expert-stringvalue''],
               children = [Markup (Str ''<input/>'')]\<rparr>)"

text \<open>
  The widget in edit mode with a string expert (reference 2) whose input holds
  \<open>raw\<close>, while the text of the accepted value is \<open>a\<close>.
\<close>

definition example_editing :: "jsval \<Rightarrow> valueview" where
  "example_editing raw =
     example_static
       \<lparr>u_initialValue := Some example_a, u_isInEditMode := True, u_textValue := Str ''a'',
        u_expert := Some ((newExpert example_StringValue 2 1)\<lparr>ex_rawValue := raw\<rparr>),
        nextRef := 2\<rparr>"

text \<open>
  The same widget a little later: the input holds \<open>b\<close>, the timer (reference 3) has
  expired and the parser was asked for \<open>b\<close> (request 4); the formatter has not yet
  answered \<open>_setValue\<close>'s request for \<open>example_a\<close> (request 1).
\<close>

definition example_service :: service where
  "example_service =
     \<lparr>sv_dataValueType = Some ''string'', sv_dataTypeId = None, sv_lang = Some ''en'',
      sv_options = []\<rparr>"

definition example_parseRequest :: parseRequest where
  "example_parseRequest =
     \<lparr>pr_ref = 4, pr_rawValue = Str ''b'', pr_valueParser = example_service\<rparr>"

definition example_formatRequest :: formatRequest where
  "example_formatRequest =
     \<lparr>fr_ref = 1, fr_dataValue = example_a, fr_dataTypeId = None,
      fr_outputFormat = ''text/html'', fr_valueFormatter = example_service,
      fr_callbacks = SetValueCallbacks\<rparr>"

definition example_parsing :: valueview where
  "example_parsing =
     (example_editing (Str ''b''))
       \<lparr>u_parseTimer := Some 3, uu_lastUpdateValue := Str ''b'', nextRef := 4,
        parseRequests := [example_parseRequest],
        formatRequests := [example_formatRequest]\<rparr>"

text \<open>
  A history from creation: the user enters \<open>1\<close> with precision 1 and, after the timer
  has expired, changes the precision to 2; after the second expiry two requests are
  with the parser (4 and 6).
\<close>

definition example_precision :: "int \<Rightarrow> chars" where
  "example_precision n = [(''precision'', Number n)]"

definition example_two_requests :: "event list" where
  "example_two_requests =
     [CallStartEditing,
      ExpertInput (Str ''1'') (example_precision 1), TimerFires 3,
      ExpertInput (Str ''1'') (example_precision 2), TimerFires 5]"

text \<open>
  A history from creation: the view is given \<open>example_a\<close>, edit mode is entered, the
  user enters \<open>b\<close> and the timer expires; the parser has request 6 for \<open>b\<close>. Then the
  same history continued: the parser answers \<open>example_b\<close>, which is sent to the formatter
  (request 7), and edit mode is left.
\<close>

definition example_history :: "event list" where
  "example_history =
     [CallValue (DV example_a), FormatterResponds 2 (FormatDone (Str ''a'') (DV example_a)),
      CallStartEditing, FormatterResponds 3 (FormatDone (Str ''a'') (DV example_a)),
      ExpertInput (Str ''b'') [], TimerFires 5]"

definition example_committed :: "event list" where
  "example_committed =
     example_history @ [ParserResponds 6 (ParseDone (DV example_b)), CallStopEditing (Boolean False)]"

text \<open>An expert for strings without a preview, and a widget created with it.\<close>

definition example_TextValue :: expertConstructor where
  "example_TextValue =
     \<lparr>ctor_ref = 3, ctor_uiBaseClass = ''valueview-expert-textvalue'',
      ctor_hasPreview = False, ctor_valueCharacteristics = [], ctor_rawValue = Str [],
      ctor_drawResolves = True\<rparr>"

definition example_plain :: valueview where
  "example_plain =
     snd (u_create
       (example_options\<lparr>expertStore :=
          Instance (\<lambda>t d. if t = Some ''string'' then Some example_TextValue else None)\<rparr>)
       example_experts [])"

text \<open>
  For the debounce: a raw value that has to go to the parser; the widget once the
  expert's input has changed; the timers in flight are none but the one \<open>_parseTimer\<close>
  names; a sequence of inputs each of which the \<open>change\<close> callback detects as a change
  (in the state the inputs before it have led to) and has to parse.
\<close>

definition needsParsing :: "jsval \<Rightarrow> bool" where
  "needsParsing rawValue = (rawValue \<noteq> Null \<and> \<not> instanceof_DataValue rawValue)"

definition withInput :: "jsval \<Rightarrow> chars \<Rightarrow> valueview \<Rightarrow> valueview" where
  "withInput rawValue cs this =
     (case u_expert this of
        None \<Rightarrow> this
      | Some e \<Rightarrow>
          this\<lparr>u_expert := Some (e\<lparr>ex_rawValue := rawValue, ex_valueCharacteristics := cs\<rparr>)\<rparr>)"

definition timer_inv :: "valueview \<Rightarrow> bool" where
  "timer_inv this =
     (list_all (\<lambda>t. u_parseTimer this = Some (t_ref t)) (timers this)
      \<and> u_parseTimer this \<noteq> Some 0)"

fun detectedChanges :: "(jsval \<times> chars) list \<Rightarrow> valueview \<Rightarrow> bool" where
  "detectedChanges [] this = True"
| "detectedChanges ((rawValue, cs) # rest) this =
     (needsParsing rawValue
      \<and> fst (changeDetected (withInput rawValue cs this)) = Return True
      \<and> detectedChanges rest (step (ExpertInput rawValue cs) this))"

definition inputs_of :: "(jsval \<times> chars) list \<Rightarrow> event list" where
  "inputs_of xs = map (\<lambda>(rawValue, cs). ExpertInput rawValue cs) xs"

definition example_inputs :: "(jsval \<times> chars) list" where
  "example_inputs = [(Str ''ab'', []), (Str ''abc'', [])]"

text \<open>
  What the widget's element shows. The editable surface is shown when the element's only
  child is the node \<open>$value\<close>, the view port of the experts. The formatted value is
  shown when the element is as \<open>.html( getFormattedValue() )\<close> leaves it. The static
  display is shown when the element holds markup only and that markup is the formatted
  value; a view whose \<open>_formattedValue\<close> is \<open>null\<close> shows the markup drawn last (none,
  once it has been redrawn), since a failure of the formatter clears \<open>_formattedValue\<close>
  without a redraw. Both would be visible if the element held the view port and some
  markup.
\<close>

definition editableSurfaceShown :: "valueview \<Rightarrow> bool" where
  "editableSurfaceShown this =
     (children (document this (element this)) = [NodeRef (dollar_value this)])"

definition markupOnly :: "valueview \<Rightarrow> bool" where
  "markupOnly this = list_all is_Markup (children (document this (element this)))"

definition formattedValueShown :: "valueview \<Rightarrow> bool" where
  "formattedValueShown this =
     (children (jq_html (getFormattedValue this) (document this (element this)))
        = children (document this (element this)))"

definition staticDisplayShown :: "valueview \<Rightarrow> bool" where
  "staticDisplayShown this =
     (markupOnly this \<and> (u_formattedValue this = Null \<or> formattedValueShown this))"

definition bothVisible :: "valueview \<Rightarrow> bool" where
  "bothVisible this =
     (NodeRef (dollar_value this) \<in> set (children (document this (element this)))
      \<and> list_ex is_Markup (children (document this (element this))))"

definition surface_inv :: "valueview \<Rightarrow> bool" where
  "surface_inv this =
     (element this \<noteq> dollar_value this
      \<and> (case u_expert this of None \<Rightarrow> True | Some e \<Rightarrow> viewPort e = Some (dollar_value this))
      \<and> (if isInEditMode this then editableSurfaceShown this else markupOnly this))"

text \<open>
  Outside edit mode the element shows the formatted value, when there is one.
\<close>

definition static_inv :: "valueview \<Rightarrow> bool" where
  "static_inv this =
     (isInEditMode this \<or> u_formattedValue this = Null \<or> formattedValueShown this)"

text \<open>Outside edit mode the view has no expert.\<close>

definition expert_inv :: "valueview \<Rightarrow> bool" where
  "expert_inv this = (isInEditMode this \<or> u_expert this = None)"

text \<open>
  The state in the middle of \<open>stopEditing\<close>: edit mode is left, the view port not yet
  detached.
\<close>

definition leaving :: "valueview \<Rightarrow> bool" where
  "leaving this =
     (element this \<noteq> dollar_value this
      \<and> (case u_expert this of None \<Rightarrow> True | Some e \<Rightarrow> viewPort e = Some (dollar_value this))
      \<and> \<not> isInEditMode this \<and> editableSurfaceShown this)"

text \<open>
  References are handed out in increasing order: no request to the formatter in flight
  has a reference beyond the counter.
\<close>

definition fresh_inv :: "valueview \<Rightarrow> bool" where
  "fresh_inv this = list_all (\<lambda>q. fr_ref q \<le> nextRef this) (formatRequests this)"

section \<open>Sequencing and frames\<close>

lemma andThen_Return [simp]: "andThen (Return x, s) k = k x s"
  by (simp add: andThen_def)

lemma andThen_Throw [simp]: "andThen (Throw e, s) k = (Throw e, s)"
  by (simp add: andThen_def)

lemma kept_andThen:
  assumes "kept (snd r) = kept s" and "\<And>x s'. kept (snd (k x s')) = kept s'"
  shows "kept (snd (andThen r k)) = kept s"
proof (cases r)
  case (Pair c s')
  then show ?thesis using assms by (cases c) auto
qed

lemma valued_andThen:
  assumes "valued (snd r) = valued s" and "\<And>x s'. valued (snd (k x s')) = valued s'"
  shows "valued (snd (andThen r k)) = valued s"
proof (cases r)
  case (Pair c s')
  then show ?thesis using assms by (cases c) auto
qed

lemma value_andThen:
  assumes "u_value (snd r) = a" and "\<And>x s'. u_value (snd (k x s')) = u_value s'"
  shows "u_value (snd (andThen r k)) = a"
proof (cases r)
  case (Pair c s')
  then show ?thesis using assms by (cases c) auto
qed

lemma kept_fields:
  assumes "kept a = kept b"
  shows "u_value a = u_value b" and "u_formattedValue a = u_formattedValue b"
    and "u_initialValue a = u_initialValue b" and "u_isInEditMode a = u_isInEditMode b"
    and "isInEditMode a = isInEditMode b"
    and "u_expertConstructor a = u_expertConstructor b" and "u_parseTimer a = u_parseTimer b"
    and "uu_lastUpdateValue a = uu_lastUpdateValue b"
    and "uu_lastValueCharacteristics a = uu_lastValueCharacteristics b"
    and "options a = options b" and "experts a = experts b" and "element a = element b"
    and "dollar_value a = dollar_value b" and "timers a = timers b"
    and "parseRequests a = parseRequests b"
  using assms by (simp_all add: kept_def isInEditMode_def)

lemma valued_fields:
  assumes "valued a = valued b"
  shows "u_initialValue a = u_initialValue b" and "u_isInEditMode a = u_isInEditMode b"
    and "isInEditMode a = isInEditMode b" and "u_parseTimer a = u_parseTimer b"
    and "uu_lastUpdateValue a = uu_lastUpdateValue b"
    and "uu_lastValueCharacteristics a = uu_lastValueCharacteristics b"
    and "options a = options b" and "experts a = experts b" and "element a = element b"
    and "dollar_value a = dollar_value b" and "timers a = timers b"
    and "parseRequests a = parseRequests b"
  using assms by (simp_all add: valued_def isInEditMode_def)

lemma kept_valued: "kept a = kept b \<Longrightarrow> valued a = valued b"
  by (simp add: kept_def valued_def)

lemma kept_updates [simp]:
  "kept (s\<lparr>document := d\<rparr>) = kept s"
  "kept (s\<lparr>formatRequests := f\<rparr>) = kept s"
  "kept (s\<lparr>nextRef := n\<rparr>) = kept s"
  "kept (s\<lparr>u_expert := e\<rparr>) = kept s"
  "kept (s\<lparr>u_textValue := t\<rparr>) = kept s"
  "kept (s\<lparr>triggered := g\<rparr>) = kept s"
  by (simp_all add: kept_def)

lemma valued_updates [simp]:
  "valued (s\<lparr>document := d\<rparr>) = valued s"
  "valued (s\<lparr>formatRequests := f\<rparr>) = valued s"
  "valued (s\<lparr>nextRef := n\<rparr>) = valued s"
  "valued (s\<lparr>u_expert := e\<rparr>) = valued s"
  "valued (s\<lparr>u_textValue := t\<rparr>) = valued s"
  "valued (s\<lparr>triggered := g\<rparr>) = valued s"
  "valued (s\<lparr>u_value := v\<rparr>) = valued s"
  "valued (s\<lparr>u_formattedValue := fv\<rparr>) = valued s"
  "valued (s\<lparr>u_expertConstructor := c\<rparr>) = valued s"
  by (simp_all add: valued_def)

lemma snd_instantiateFormatter [simp]: "snd (u_instantiateFormatter c s) = s"
  by (simp add: u_instantiateFormatter_def split: store.splits)

lemma snd_instantiateParser [simp]: "snd (u_instantiateParser c s) = s"
  by (simp add: u_instantiateParser_def split: store.splits)

lemma kept_renderError [simp]: "kept (u_renderError m s) = kept s"
  by (simp add: u_renderError_def split: option.splits)

lemma kept_fire [simp]: "kept (fire cbs s) = kept s"
  by (simp add: fire_def)

lemma kept_trigger [simp]: "kept (u_trigger n a s) = kept s"
  by (simp add: u_trigger_def)

lemma kept_destroyExpert [simp]: "kept (snd (u_destroyExpert s)) = kept s"
  by (simp add: u_destroyExpert_def split: option.splits)

lemma kept_updateExpert [simp]: "kept (snd (u_updateExpert s)) = kept s"
  unfolding u_updateExpert_def
  by (auto intro!: kept_andThen simp: Let_def split: option.splits)

lemma kept_drawStaticContent [simp]: "kept (drawStaticContent s) = kept s"
  by (simp add: drawStaticContent_def)

lemma kept_drawContent_then [simp]: "kept (snd (drawContent_then cbs s)) = kept s"
  unfolding drawContent_then_def
  by (auto intro!: kept_andThen simp: Let_def split: option.splits)

lemma kept_updateTextValue [simp]: "kept (snd (u_updateTextValue cbs s)) = kept s"
  unfolding u_updateTextValue_def
  by (auto intro!: kept_andThen simp: Let_def split: option.splits)

lemma kept_drawContent [simp]: "kept (snd (drawContent cbs s)) = kept s"
  unfolding drawContent_def
  by (auto intro!: kept_andThen)

lemma kept_draw [simp]: "kept (snd (draw cbs s)) = kept s"
  unfolding draw_def
  by (simp add: Let_def)

lemma kept_formatValue [simp]: "kept (snd (u_formatValue v c s)) = kept s"
  unfolding u_formatValue_def
  by (auto intro!: kept_andThen simp: Let_def)

lemmas draw_frame [simp] = kept_fields [OF kept_draw]
lemmas drawContent_frame [simp] = kept_fields [OF kept_drawContent]
lemmas drawContent_then_frame [simp] = kept_fields [OF kept_drawContent_then]
lemmas formatValue_frame [simp] = kept_fields [OF kept_formatValue]
lemmas destroyExpert_frame [simp] = kept_fields [OF kept_destroyExpert]
lemmas updateExpert_frame [simp] = kept_fields [OF kept_updateExpert]
lemmas renderError_frame [simp] = kept_fields [OF kept_renderError]
lemmas trigger_frame [simp] = kept_fields [OF kept_trigger]
lemmas fire_frame [simp] = kept_fields [OF kept_fire]

lemmas valued_draw [simp] = kept_valued [OF kept_draw]
lemmas valued_drawContent [simp] = kept_valued [OF kept_drawContent]
lemmas valued_drawContent_then [simp] = kept_valued [OF kept_drawContent_then]
lemmas valued_formatValue [simp] = kept_valued [OF kept_formatValue]
lemmas valued_destroyExpert [simp] = kept_valued [OF kept_destroyExpert]
lemmas valued_updateExpert [simp] = kept_valued [OF kept_updateExpert]
lemmas valued_renderError [simp] = kept_valued [OF kept_renderError]
lemmas valued_trigger [simp] = kept_valued [OF kept_trigger]
lemmas valued_fire [simp] = kept_valued [OF kept_fire]

lemma valued_updateExpertConstructor [simp]:
  "valued (snd (u_updateExpertConstructor s)) = valued s"
  by (simp add: u_updateExpertConstructor_def Let_def split: store.splits)

lemma updateExpertConstructor_value [simp]:
  "u_value (snd (u_updateExpertConstructor s)) = u_value s"
  "u_formattedValue (snd (u_updateExpertConstructor s)) = u_formattedValue s"
  by (simp_all add: u_updateExpertConstructor_def Let_def split: store.splits)

lemma setValue_tail_value [simp]:
  "u_value (snd (case u_value s1 of None \<Rightarrow> draw [] (s1\<lparr>u_formattedValue := Null\<rparr>)
                 | Some d \<Rightarrow> u_formatValue d SetValueCallbacks s1)) = u_value s1"
  by (cases "u_value s1") simp_all

lemma setValue_tail_valued [simp]:
  "valued (snd (case u_value s1 of None \<Rightarrow> draw [] (s1\<lparr>u_formattedValue := Null\<rparr>)
                 | Some d \<Rightarrow> u_formatValue d SetValueCallbacks s1)) = valued s1"
  by (cases "u_value s1") simp_all

lemma valued_setValue [simp]: "valued (snd (u_setValue x s)) = valued s"
  unfolding u_setValue_def
  by (auto intro!: valued_andThen)

lemma setValue_value:
  "u_value (snd (u_setValue x s)) =
     (if x \<noteq> Null \<and> \<not> instanceof_DataValue x then u_value s
      else if (case (u_value s, dataValue_of x) of
                 (Some cur, Some new) \<Rightarrow> dv_json new = dv_json cur | _ \<Rightarrow> False)
      then u_value s else dataValue_of x)"
  unfolding u_setValue_def
  by (cases x) (auto intro!: value_andThen split: option.splits)

lemma valued_value_fn [simp]: "valued (snd (value_fn x s)) = valued s"
  unfolding value_fn_def by (auto intro!: valued_andThen)

lemma value_fn_value:
  "u_value (snd (value_fn x s)) =
     (if x = Undefined \<or> (x \<noteq> Null \<and> \<not> instanceof_DataValue x) then u_value s
      else if (case (u_value s, dataValue_of x) of
                 (Some cur, Some new) \<Rightarrow> dv_json new = dv_json cur | _ \<Rightarrow> False)
      then u_value s else dataValue_of x)"
  unfolding value_fn_def
  by (cases x) (auto intro!: value_andThen simp: setValue_value split: option.splits)

lemmas setValue_frame [simp] = valued_fields [OF valued_setValue]
lemmas value_fn_frame [simp] = valued_fields [OF valued_value_fn]

section \<open>Edit mode\<close>

lemma fst_draw_static: "\<not> isInEditMode s \<Longrightarrow> fst (draw cbs s) = Return ()"
  by (simp add: draw_def drawContent_def Let_def isInEditMode_def)

lemma startEditing_static:
  assumes "\<not> isInEditMode s"
  shows "u_value (snd (startEditing s)) = u_value s"
    and "u_initialValue (snd (startEditing s)) = u_value s"
    and "isInEditMode (snd (startEditing s))"
  using assms by (simp_all add: startEditing_def Let_def) (simp add: isInEditMode_def)

lemma startEditing_editing: "isInEditMode s \<Longrightarrow> startEditing s = (Return (), s)"
  by (simp add: startEditing_def)

lemma stopEditing_value:
  assumes "isInEditMode s"
  shows "u_value (snd (stopEditing d s)) =
           (if truthy d then u_value (snd (value_fn (js_of (u_initialValue s)) s)) else u_value s)"
proof -
  have "u_value (snd (stopEditing d s)) =
        u_value (snd (if truthy d then value_fn (js_of (initialValue s)) s else (Return Undefined, s)))"
    using assms unfolding stopEditing_def
    by (auto simp: Let_def intro!: value_andThen)
  then show ?thesis using assms by (simp add: initialValue_def)
qed

lemma sameSerialization_refl [simp]: "sameSerialization v v"
  by (cases v) simp_all

lemma value_fn_restores:
  "sameSerialization (u_value (snd (value_fn (js_of v) s))) v"
  by (cases v; cases "u_value s") (simp_all add: value_fn_value)

lemma value_fn_same:
  "u_value s = v \<Longrightarrow> u_value (snd (value_fn (js_of v) s)) = v"
  by (cases v) (simp_all add: value_fn_value)

lemma example_empty_fields:
  "u_value example_empty = None" "u_isInEditMode example_empty = False"
  "u_expert example_empty = None" "options example_empty = example_options"
  "timers example_empty = []" "parseRequests example_empty = []"
  "formatRequests example_empty = []" "element example_empty = 0"
  "dollar_value example_empty = 1"
  "nextRef example_empty = 1" "u_expertConstructor example_empty = Some example_StringValue"
  "children (document example_empty 0) = []" "u_parseTimer example_empty = None"
  "uu_lastUpdateValue example_empty = Undefined" "u_textValue example_empty = Undefined"
  "uu_lastValueCharacteristics example_empty = None"
  by (simp_all add: example_empty_def u_create_def prototype_def example_options_def
      default_options_def u_initValue_def value_fn_def u_setValue_def
      u_updateExpertConstructor_def Let_def isEmpty_def u_determineDataValueType_def
      draw_def drawContent_def drawStaticContent_def fire_def isInEditMode_def
      getFormattedValue_def jq_addClass_def jq_removeClass_def)

text \<open>
  C3. For every state of the view, calling \<open>startEditing\<close> and then at once
  \<open>cancelEditing\<close> leaves the view with its value from before edit mode: when the view
  was static, the very value it had (the one \<open>startEditing\<close> captured); when it was
  already in edit mode, where \<open>startEditing\<close> does nothing, a value with the same
  serialized form as the one captured when edit mode began. This holds whether or not
  a call throws on the way.
\<close>

theorem startEditing_cancelEditing_restores:
  "(\<not> isInEditMode this \<longrightarrow>
      u_value (snd (cancelEditing (snd (startEditing this)))) = u_value this)
   \<and> sameSerialization (u_value (snd (cancelEditing (snd (startEditing this)))))
         (initialValue this)"
proof (cases "isInEditMode this")
  case True
  then show ?thesis
    by (simp add: startEditing_editing cancelEditing_def stopEditing_value initialValue_def
        value_fn_restores)
next
  case False
  then have "u_value (snd (cancelEditing (snd (startEditing this)))) = u_value this"
    by (simp add: cancelEditing_def stopEditing_value startEditing_static value_fn_same)
  with False show ?thesis by (simp add: initialValue_def)
qed

lemma example_static_roundtrip:
  "fst (startEditing example_static) = Return ()
   \<and> isInEditMode (snd (startEditing example_static))
   \<and> fst (cancelEditing (snd (startEditing example_static))) = Return ()
   \<and> \<not> isInEditMode (snd (cancelEditing (snd (startEditing example_static))))"
  by code_simp

theorem startEditing_cancelEditing_restores_witness:
  "\<not> isInEditMode example_static
   \<and> isInEditMode (snd (startEditing example_static))
   \<and> \<not> isInEditMode (snd (cancelEditing (snd (startEditing example_static))))
   \<and> u_value (snd (cancelEditing (snd (startEditing example_static)))) = Some example_a
   \<and> sameSerialization (u_value (snd (cancelEditing (snd (startEditing example_static)))))
         (Some example_a)"
  using startEditing_cancelEditing_restores [of example_static] example_static_roundtrip
  by (simp add: example_static_def isInEditMode_def initialValue_def example_empty_fields)

section \<open>Setting a value\<close>

text \<open>
  C9. Values are compared by their serialized form: when the view holds a value \<open>v\<close>
  and \<open>value( w )\<close> is called with a value \<open>w\<close> whose JSON serialization equals that of
  \<open>v\<close>, the call returns and the whole state of the widget is what it was: the stored
  value, the formatted value and the expert are unchanged, no request to the formatter
  is made and nothing is redrawn.
\<close>

theorem value_same_serialization_is_noop:
  "u_value this = Some v \<Longrightarrow> dv_json w = dv_json v \<Longrightarrow>
   value_fn (DV w) this = (Return Undefined, this)"
  by (simp add: value_fn_def u_setValue_def)

theorem value_same_serialization_is_noop_witness:
  "example_a' \<noteq> example_a
   \<and> value_fn (DV example_a') example_static = (Return Undefined, example_static)"
  using value_same_serialization_is_noop [of example_static example_a example_a']
  by (simp add: example_static_def example_a_def example_a'_def)

text \<open>
  C8, amended. For every input \<open>x\<close> that is neither \<open>undefined\<close>, nor \<open>null\<close>, nor a
  DataValue instance, \<open>value( x )\<close> throws at once and leaves the state of the widget
  unchanged; so does \<open>_setValue( x )\<close>, for \<open>undefined\<close> too. \<open>value( undefined )\<close> is
  the getter: it returns the current value, throws nothing and changes nothing.
\<close>

theorem value_fn_rejects_other_values:
  "(x \<noteq> Undefined \<and> x \<noteq> Null \<and> \<not> instanceof_DataValue x \<longrightarrow>
      value_fn x this =
        (Throw (Error ''The given value has to be an instance of dataValues.DataValue or null''),
         this))
   \<and> (x \<noteq> Null \<and> \<not> instanceof_DataValue x \<longrightarrow>
      u_setValue x this =
        (Throw (Error ''Instance of dataValues.DataValue required for setting a value''), this))
   \<and> value_fn Undefined this = (Return (js_of (u_value this)), this)"
  by (simp add: value_fn_def u_setValue_def)

theorem value_fn_rejects_other_values_witness:
  "value_fn (Str ''Q42'') example_static =
     (Throw (Error ''The given value has to be an instance of dataValues.DataValue or null''),
      example_static)
   \<and> u_setValue (Number 42) example_static =
     (Throw (Error ''Instance of dataValues.DataValue required for setting a value''),
      example_static)"
  using value_fn_rejects_other_values [of "Str ''Q42''" example_static]
    value_fn_rejects_other_values [of "Number 42" example_static]
  by simp

text \<open>
  C8 as stated fails: \<open>undefined\<close> is neither \<open>null\<close> nor a DataValue instance, and
  \<open>value( undefined )\<close> returns the current value instead of throwing.
\<close>

theorem value_fn_undefined_counterexample:
  "Undefined \<noteq> Null \<and> \<not> instanceof_DataValue Undefined
   \<and> value_fn Undefined example_static = (Return (DV example_a), example_static)"
  by (simp add: value_fn_def example_static_def)

section \<open>Destroying an expert\<close>

text \<open>
  C10. \<open>Expert.destroy\<close> is idempotent: destroying an expert a second time gives back
  the expert and the document as the first call left them, so no extension is called
  again and no node is touched. A call on an expert whose view port is \<open>null\<close> returns
  the expert and the document as they are. After \<open>destroy\<close> the view port is \<open>null\<close>,
  and after the destroy of a live expert so are the view state, the notifier, the
  message provider and the options.
\<close>

theorem Expert_destroy_idempotent:
  "Expert_destroy (fst (Expert_destroy this d)) (snd (Expert_destroy this d))
     = Expert_destroy this d
   \<and> (viewPort this = None \<longrightarrow> Expert_destroy this d = (this, d))
   \<and> viewPort (fst (Expert_destroy this d)) = None
   \<and> (viewPort this \<noteq> None \<longrightarrow>
        u_viewState (fst (Expert_destroy this d)) = None
        \<and> u_viewNotifier (fst (Expert_destroy this d)) = None
        \<and> u_messageProvider (fst (Expert_destroy this d)) = None
        \<and> u_options (fst (Expert_destroy this d)) = None)"
  by (cases "viewPort this") (simp_all add: Expert_destroy_def)

theorem Expert_destroy_idempotent_witness:
  "viewPort example_expert \<noteq> None
   \<and> u_viewState (fst (Expert_destroy example_expert example_document)) = None
   \<and> map ext_calls (u_extendable (fst (Expert_destroy example_expert example_document)))
       = [[''init'', ''destroy'']]
   \<and> node.children (snd (Expert_destroy example_expert example_document) 1) = []
   \<and> Expert_destroy (fst (Expert_destroy example_expert example_document))
        (snd (Expert_destroy example_expert example_document))
      = Expert_destroy example_expert example_document"
  using Expert_destroy_idempotent [of example_expert example_document]
  by (simp add: Expert_destroy_def example_expert_def example_document_def callExtensions_def
      jq_empty_def jq_removeClass_def)

section \<open>Raw values that need no parsing\<close>

lemma valued_updateValue_callbacks [simp]:
  "valued (snd (updateValue_callbacks p s)) = valued s"
  by (cases p) (simp_all add: updateValue_callbacks_def Let_def split: option.splits)

lemma updateValue_callbacks_value:
  "u_value (snd (updateValue_callbacks (Resolved v) s)) = dataValue_of v"
  by (simp add: updateValue_callbacks_def Let_def split: option.splits)

lemmas updateValue_callbacks_frame [simp] = valued_fields [OF valued_updateValue_callbacks]

text \<open>
  C6. When the raw value of the expert is \<open>null\<close> or a DataValue instance,
  \<open>_parseValue\<close> returns a promise that is already resolved with that raw value; it
  neither clears nor sets a timer, instantiates no parser and sends nothing to the
  parser (only \<open>__lastUpdateValue\<close> is reset and the two events are triggered). So
  \<open>_updateValue\<close> has accepted the raw value as the view's value when it returns, with
  the timers and the requests to the parser as they were.
\<close>

theorem parseValue_bypass:
  assumes "u_expert this = Some e"
    and "ex_rawValue e = Null \<or> instanceof_DataValue (ex_rawValue e)"
  shows "u_parseValue this =
           (Return (Resolved (ex_rawValue e)),
            this\<lparr>uu_lastUpdateValue := Undefined,
                 triggered := triggered this @ [(''parse'', []), (''afterparse'', [])]\<rparr>)
         \<and> u_value (snd (u_updateValue this)) = dataValue_of (ex_rawValue e)
         \<and> timers (snd (u_updateValue this)) = timers this
         \<and> u_parseTimer (snd (u_updateValue this)) = u_parseTimer this
         \<and> parseRequests (snd (u_updateValue this)) = parseRequests this"
proof -
  have 1: "u_parseValue this =
           (Return (Resolved (ex_rawValue e)),
            this\<lparr>uu_lastUpdateValue := Undefined,
                 triggered := triggered this @ [(''parse'', []), (''afterparse'', [])]\<rparr>)"
    using assms by (auto simp: u_parseValue_def Let_def u_trigger_def)
  show ?thesis
    unfolding u_updateValue_def 1
    by (simp add: updateValue_callbacks_value)
qed

theorem parseValue_bypass_witness:
  "u_expert (example_editing (DV example_b))
     = Some ((newExpert example_StringValue 2 1)\<lparr>ex_rawValue := DV example_b\<rparr>)
   \<and> fst (u_parseValue (example_editing (DV example_b))) = Return (Resolved (DV example_b))
   \<and> u_value (snd (u_updateValue (example_editing (DV example_b)))) = Some example_b
   \<and> timers (snd (u_updateValue (example_editing (DV example_b)))) = []
   \<and> parseRequests (snd (u_updateValue (example_editing (DV example_b)))) = []"
  using parseValue_bypass [of "example_editing (DV example_b)"
      "(newExpert example_StringValue 2 1)\<lparr>ex_rawValue := DV example_b\<rparr>"]
  by (simp add: example_editing_def example_static_def example_empty_fields)

section \<open>Answers of the parser and the formatter\<close>

lemma andThen_preserves:
  assumes "P (snd r)" and "\<And>x s'. P s' \<Longrightarrow> P (snd (k x s'))"
  shows "P (snd (andThen r k))"
proof (cases r)
  case (Pair c s')
  then show ?thesis using assms by (cases c) auto
qed

lemma find_snoc_fresh:
  "\<forall>x \<in> set xs. \<not> P x \<Longrightarrow> P y \<Longrightarrow> find P (xs @ [y]) = Some y"
  by (induction xs) simp_all

lemma stopEditing_False:
  assumes "isInEditMode s"
  shows "fst (stopEditing (Boolean False) s) = Return ()
    \<and> \<not> isInEditMode (snd (stopEditing (Boolean False) s))
    \<and> u_value (snd (stopEditing (Boolean False) s)) = u_value s
    \<and> u_formattedValue (snd (stopEditing (Boolean False) s)) = u_formattedValue s
    \<and> u_expert (snd (stopEditing (Boolean False) s)) = None"
  using assms
  by (cases "u_expert s")
     (simp_all add: stopEditing_def Let_def u_destroyExpert_def fst_draw_static isInEditMode_def
       draw_def drawContent_def drawStaticContent_def fire_def)

lemma parserResponds_accepts:
  assumes "find (\<lambda>q. pr_ref q = r) (parseRequests s) = Some q"
    and "uu_lastUpdateValue s = pr_rawValue q" and "pr_rawValue q \<noteq> Undefined"
    and "formatterStore (options s) = Instance u"
  shows "fst (parserResponds r (ParseDone (DV v)) s) = Return ()
    \<and> u_value (snd (parserResponds r (ParseDone (DV v)) s)) = Some v
    \<and> uu_lastUpdateValue (snd (parserResponds r (ParseDone (DV v)) s)) = Undefined
    \<and> isInEditMode (snd (parserResponds r (ParseDone (DV v)) s)) = isInEditMode s
    \<and> options (snd (parserResponds r (ParseDone (DV v)) s)) = options s
    \<and> (\<exists>q'. formatRequests (snd (parserResponds r (ParseDone (DV v)) s)) = formatRequests s @ [q']
          \<and> fr_ref q' = Suc (nextRef s) \<and> fr_dataValue q' = v
          \<and> fr_callbacks q' = UpdateValueCallbacks)"
  using assms
  by (simp add: parserResponds_def Let_def updateValue_callbacks_def u_formatValue_def
      u_instantiateFormatter_def u_trigger_def isInEditMode_def)

lemma formatterResponds_update_accepts:
  assumes "find (\<lambda>q. fr_ref q = r) (formatRequests s) = Some q"
    and "fr_callbacks q = UpdateValueCallbacks"
  shows "u_formattedValue (snd (formatterResponds r (FormatDone fv (DV (fr_dataValue q))) s)) = fv
    \<and> u_value (snd (formatterResponds r (FormatDone fv (DV (fr_dataValue q))) s)) = u_value s
    \<and> isInEditMode (snd (formatterResponds r (FormatDone fv (DV (fr_dataValue q))) s))
        = isInEditMode s"
proof -
  let ?self = "s\<lparr>formatRequests := filter (\<lambda>q. fr_ref q \<noteq> r) (formatRequests s)\<rparr>"
  let ?P = "\<lambda>t. u_formattedValue t = fv \<and> u_value t = u_value s \<and> isInEditMode t = isInEditMode s"
  have eq: "formatterResponds r (FormatDone fv (DV (fr_dataValue q))) s =
     andThen (drawContent [] (?self\<lparr>u_formattedValue := fv\<rparr>))
       (\<lambda>_ s1. (Return (), u_trigger ''afterformat'' [] s1))"
    using assms by (simp add: formatterResponds_def Let_def updateValue_format_callbacks_def)
  have "?P (snd (andThen (drawContent [] (?self\<lparr>u_formattedValue := fv\<rparr>))
       (\<lambda>_ s1. (Return (), u_trigger ''afterformat'' [] s1))))"
    by (rule andThen_preserves) (simp_all add: isInEditMode_def)
  then show ?thesis unfolding eq by simp
qed

lemma example_parsing_fields:
  "isInEditMode example_parsing" "u_value example_parsing = Some example_a"
  "parseRequests example_parsing = [example_parseRequest]"
  "formatRequests example_parsing = [example_formatRequest]"
  "uu_lastUpdateValue example_parsing = Str ''b''" "nextRef example_parsing = 4"
  "options example_parsing = example_options"
  "u_expert example_parsing = Some ((newExpert example_StringValue 2 1)\<lparr>ex_rawValue := Str ''b''\<rparr>)"
  by (simp_all add: example_parsing_def example_editing_def example_static_def
      example_empty_fields isInEditMode_def)

text \<open>
  C7. In edit mode, \<open>stopEditing( false )\<close> returns, leaves edit mode and keeps the
  current value, which \<open>initialValue()\<close> then returns. In particular, when the parser
  answers the latest request with a value \<open>v\<close> and the formatter answers the request
  that follows with the formatted \<open>v\<close>, then after \<open>stopEditing( false )\<close> the view is
  static, \<open>initialValue()\<close> is \<open>v\<close> and the formatted value is the formatter's.
\<close>

theorem stopEditing_commits_parsed_value:
  assumes "isInEditMode this"
  shows "fst (stopEditing (Boolean False) this) = Return ()
     \<and> \<not> isInEditMode (snd (stopEditing (Boolean False) this))
     \<and> initialValue (snd (stopEditing (Boolean False) this)) = u_value this
     \<and> (find (\<lambda>q. pr_ref q = r) (parseRequests this) = Some q
          \<and> uu_lastUpdateValue this = pr_rawValue q \<and> pr_rawValue q \<noteq> Undefined
          \<and> formatterStore (options this) = Instance u
          \<and> (\<forall>q' \<in> set (formatRequests this). fr_ref q' \<noteq> Suc (nextRef this))
         \<longrightarrow> initialValue (run [ParserResponds r (ParseDone (DV v)),
                                  FormatterResponds (Suc (nextRef this)) (FormatDone fv (DV v)),
                                  CallStopEditing (Boolean False)] this) = Some v
           \<and> u_formattedValue (run [ParserResponds r (ParseDone (DV v)),
                                  FormatterResponds (Suc (nextRef this)) (FormatDone fv (DV v)),
                                  CallStopEditing (Boolean False)] this) = fv
           \<and> \<not> isInEditMode (run [ParserResponds r (ParseDone (DV v)),
                                  FormatterResponds (Suc (nextRef this)) (FormatDone fv (DV v)),
                                  CallStopEditing (Boolean False)] this))"
proof -
  note A = stopEditing_False [OF assms]
  have B: "initialValue (snd (stopEditing (Boolean False) this)) = u_value this"
    using A by (simp add: initialValue_def)
  have C: "initialValue (run [ParserResponds r (ParseDone (DV v)),
                                  FormatterResponds (Suc (nextRef this)) (FormatDone fv (DV v)),
                                  CallStopEditing (Boolean False)] this) = Some v
           \<and> u_formattedValue (run [ParserResponds r (ParseDone (DV v)),
                                  FormatterResponds (Suc (nextRef this)) (FormatDone fv (DV v)),
                                  CallStopEditing (Boolean False)] this) = fv
           \<and> \<not> isInEditMode (run [ParserResponds r (ParseDone (DV v)),
                                  FormatterResponds (Suc (nextRef this)) (FormatDone fv (DV v)),
                                  CallStopEditing (Boolean False)] this)"
    if h: "find (\<lambda>q. pr_ref q = r) (parseRequests this) = Some q"
      "uu_lastUpdateValue this = pr_rawValue q" "pr_rawValue q \<noteq> Undefined"
      "formatterStore (options this) = Instance u"
      "\<forall>q' \<in> set (formatRequests this). fr_ref q' \<noteq> Suc (nextRef this)"
  proof -
    define s1 where "s1 = snd (parserResponds r (ParseDone (DV v)) this)"
    define s2 where "s2 = snd (formatterResponds (Suc (nextRef this)) (FormatDone fv (DV v)) s1)"
    define s3 where "s3 = snd (stopEditing (Boolean False) s2)"
    have run: "run [ParserResponds r (ParseDone (DV v)),
                    FormatterResponds (Suc (nextRef this)) (FormatDone fv (DV v)),
                    CallStopEditing (Boolean False)] this = s3"
      by (simp add: run_def s1_def s2_def s3_def)
    from parserResponds_accepts [OF h(1) h(2) h(3) h(4), of v]
    obtain q' where 1: "u_value s1 = Some v" "isInEditMode s1 = isInEditMode this"
      "formatRequests s1 = formatRequests this @ [q']" "fr_ref q' = Suc (nextRef this)"
      "fr_dataValue q' = v" "fr_callbacks q' = UpdateValueCallbacks"
      unfolding s1_def by blast
    have f: "find (\<lambda>q. fr_ref q = Suc (nextRef this)) (formatRequests s1) = Some q'"
      unfolding 1(3) using h(5) 1(4) by (intro find_snoc_fresh) auto
    from formatterResponds_update_accepts [OF f 1(6), of fv]
    have 2: "u_formattedValue s2 = fv" "u_value s2 = Some v" "isInEditMode s2"
      unfolding s2_def using 1 assms by simp_all
    from stopEditing_False [OF 2(3)]
    have 3: "\<not> isInEditMode s3" "u_value s3 = Some v" "u_formattedValue s3 = fv"
      unfolding s3_def using 2 by simp_all
    show ?thesis unfolding run using 3 by (simp add: initialValue_def)
  qed
  show ?thesis using A B C by blast
qed

theorem stopEditing_commits_parsed_value_witness:
  "isInEditMode example_parsing
   \<and> initialValue (run [ParserResponds 4 (ParseDone (DV example_b)),
                        FormatterResponds 5 (FormatDone (Str ''b'') (DV example_b)),
                        CallStopEditing (Boolean False)] example_parsing) = Some example_b
   \<and> u_formattedValue (run [ParserResponds 4 (ParseDone (DV example_b)),
                        FormatterResponds 5 (FormatDone (Str ''b'') (DV example_b)),
                        CallStopEditing (Boolean False)] example_parsing) = Str ''b''
   \<and> \<not> isInEditMode (run [ParserResponds 4 (ParseDone (DV example_b)),
                        FormatterResponds 5 (FormatDone (Str ''b'') (DV example_b)),
                        CallStopEditing (Boolean False)] example_parsing)"
  using stopEditing_commits_parsed_value [of example_parsing 4 example_parseRequest "()"
      example_b "Str ''b''"]
  by (simp add: example_parsing_fields example_parseRequest_def example_formatRequest_def
      example_options_def default_options_def)

lemma parserResponds_fail:
  "find (\<lambda>q. pr_ref q = r) (parseRequests this) = Some q \<Longrightarrow>
   parserResponds r (ParseFail M) this =
     (Return (),
      u_trigger ''afterparse'' []
        (if truthy M
         then u_renderError M
                (this\<lparr>parseRequests := filter (\<lambda>q. pr_ref q \<noteq> r) (parseRequests this),
                      u_value := None\<rparr>)
         else this\<lparr>parseRequests := filter (\<lambda>q. pr_ref q \<noteq> r) (parseRequests this)\<rparr>))"
  by (simp add: parserResponds_def updateValue_callbacks_def Let_def)

lemma formatterResponds_fail_silent:
  "find (\<lambda>q. fr_ref q = r) (formatRequests this) = Some fq \<Longrightarrow> \<not> truthy M \<Longrightarrow>
   formatterResponds r (FormatFail M) this =
     (Return (),
      (case fr_callbacks fq of
         TextValueCallbacks cbs \<Rightarrow> (\<lambda>s. s)
       | _ \<Rightarrow> u_trigger ''afterformat'' [])
        (this\<lparr>formatRequests := filter (\<lambda>q. fr_ref q \<noteq> r) (formatRequests this)\<rparr>))"
  by (simp add: formatterResponds_def updateValue_format_callbacks_def setValue_callbacks_def
      Let_def split: formatCallbacks.splits)

lemma renderError_preview:
  "u_expert s = Some e \<Longrightarrow> ex_preview e = Some p \<Longrightarrow>
   u_expert (u_renderError M s) = Some (e\<lparr>ex_preview := Some (PreviewContent M)\<rparr>)"
  by (simp add: u_renderError_def)

lemma renderError_no_preview:
  "(case u_expert s of None \<Rightarrow> True | Some e \<Rightarrow> ex_preview e = None) \<Longrightarrow> u_renderError M s = s"
  by (simp add: u_renderError_def split: option.splits)

text \<open>
  C4, amended. When the parser fails with a message \<open>M\<close> (a truthy one), the view's value
  is set to \<open>null\<close> and \<open>_renderError\<close> is given \<open>M\<close>. Where an expert with a preview is
  active, that preview then shows exactly \<open>M\<close>; where no expert is active, or the active
  expert has no preview, the guard of \<open>_renderError\<close> shows \<open>M\<close> nowhere and nothing but
  the value and the bookkeeping changes. When the parser or the formatter fails without
  a message, nothing but the bookkeeping changes: the request is gone and the
  \<open>afterparse\<close> or \<open>afterformat\<close> event is triggered; value, formatted value, text
  value and preview stay as they were and no error is shown.
\<close>

theorem parser_failure_message:
  "(find (\<lambda>q. pr_ref q = r) (parseRequests this) = Some q \<and> truthy M \<longrightarrow>
      parserResponds r (ParseFail M) this =
        (Return (),
         u_trigger ''afterparse'' []
           (u_renderError M
              (this\<lparr>parseRequests := filter (\<lambda>q. pr_ref q \<noteq> r) (parseRequests this),
                    u_value := None\<rparr>)))
      \<and> u_value (snd (parserResponds r (ParseFail M) this)) = None
      \<and> (\<forall>e p. u_expert this = Some e \<and> ex_preview e = Some p \<longrightarrow>
            u_expert (snd (parserResponds r (ParseFail M) this))
              = Some (e\<lparr>ex_preview := Some (PreviewContent M)\<rparr>))
      \<and> ((case u_expert this of None \<Rightarrow> True | Some e \<Rightarrow> ex_preview e = None) \<longrightarrow>
            snd (parserResponds r (ParseFail M) this) =
              u_trigger ''afterparse'' []
                (this\<lparr>parseRequests := filter (\<lambda>q. pr_ref q \<noteq> r) (parseRequests this),
                      u_value := None\<rparr>)))
   \<and> (find (\<lambda>q. pr_ref q = r) (parseRequests this) = Some q \<and> \<not> truthy M \<longrightarrow>
      parserResponds r (ParseFail M) this =
        (Return (),
         u_trigger ''afterparse'' []
           (this\<lparr>parseRequests := filter (\<lambda>q. pr_ref q \<noteq> r) (parseRequests this)\<rparr>)))
   \<and> (find (\<lambda>q. fr_ref q = r') (formatRequests this) = Some fq \<and> \<not> truthy M \<longrightarrow>
      formatterResponds r' (FormatFail M) this =
        (Return (),
         (case fr_callbacks fq of
            TextValueCallbacks cbs \<Rightarrow> (\<lambda>s. s)
          | _ \<Rightarrow> u_trigger ''afterformat'' [])
           (this\<lparr>formatRequests := filter (\<lambda>q. fr_ref q \<noteq> r') (formatRequests this)\<rparr>)))"
proof -
  have a: "(case u_expert this of None \<Rightarrow> True | Some e \<Rightarrow> ex_preview e = None) \<Longrightarrow>
      u_renderError M (this\<lparr>parseRequests := filter (\<lambda>q. pr_ref q \<noteq> r) (parseRequests this),
                    u_value := None\<rparr>)
      = this\<lparr>parseRequests := filter (\<lambda>q. pr_ref q \<noteq> r) (parseRequests this), u_value := None\<rparr>"
    by (rule renderError_no_preview) simp
  show ?thesis
    using a
    by (auto simp: parserResponds_fail formatterResponds_fail_silent u_trigger_def
      renderError_preview)
qed

theorem parser_failure_message_witness:
  "u_value example_parsing = Some example_a
   \<and> u_value (snd (parserResponds 4 (ParseFail (Str ''Malformed input'')) example_parsing)) = None
   \<and> map_option ex_preview
       (u_expert (snd (parserResponds 4 (ParseFail (Str ''Malformed input'')) example_parsing)))
      = Some (Some (PreviewContent (Str ''Malformed input'')))
   \<and> snd (parserResponds 4 (ParseFail (Str ''Malformed input'')) (example_parsing\<lparr>u_expert := None\<rparr>))
      = u_trigger ''afterparse'' []
          (example_parsing\<lparr>u_expert := None, parseRequests := [], u_value := None\<rparr>)
   \<and> parserResponds 4 (ParseFail Undefined) example_parsing =
        (Return (), u_trigger ''afterparse'' [] (example_parsing\<lparr>parseRequests := []\<rparr>))
   \<and> formatterResponds 1 (FormatFail Undefined) example_parsing =
        (Return (), u_trigger ''afterformat'' [] (example_parsing\<lparr>formatRequests := []\<rparr>))"
  using parser_failure_message [of 4 example_parsing example_parseRequest
      "Str ''Malformed input''" 1 example_formatRequest]
    parser_failure_message [of 4 "example_parsing\<lparr>u_expert := None\<rparr>" example_parseRequest
      "Str ''Malformed input''" 1 example_formatRequest]
    parser_failure_message [of 4 example_parsing example_parseRequest
      Undefined 1 example_formatRequest]
  by (simp add: example_parsing_fields example_parseRequest_def example_formatRequest_def
      newExpert_def example_StringValue_def u_renderError_def u_trigger_def)

lemma example_plain_parsing:
  "parseRequests (run example_history example_plain)
     = [\<lparr>pr_ref = 6, pr_rawValue = Str ''b'', pr_valueParser = example_service\<rparr>]
   \<and> map_option ex_preview (u_expert (run example_history example_plain)) = Some None
   \<and> u_value (run example_history example_plain) = Some example_a
   \<and> children (document (run example_history example_plain) 0) = [NodeRef 1]
   \<and> children (document (run example_history example_plain) 1) = []"
  by code_simp

text \<open>
  C4 as stated fails. With an expert that has no preview, a failure of the parser with
  the message \<open>Malformed input\<close> clears the value \<open>example_a\<close> and changes nothing else
  but the bookkeeping: no display receives the message. After edit mode has been left
  there is no expert at all: the value is cleared and the element keeps the static
  display.
\<close>

theorem parser_failure_without_preview_counterexample:
  "truthy (Str ''Malformed input'')
   \<and> u_value (run example_history example_plain) = Some example_a
   \<and> map_option ex_preview (u_expert (run example_history example_plain)) = Some None
   \<and> parserResponds 6 (ParseFail (Str ''Malformed input'')) (run example_history example_plain)
      = (Return (),
         u_trigger ''afterparse'' []
           ((run example_history example_plain)\<lparr>parseRequests := [], u_value := None\<rparr>))
   \<and> u_value (run (example_history @ [CallStopEditing (Boolean False)]) example_empty)
      = Some example_a
   \<and> u_value (run (example_history @ [CallStopEditing (Boolean False),
          ParserResponds 6 (ParseFail (Str ''Malformed input''))]) example_empty) = None
   \<and> u_expert (run (example_history @ [CallStopEditing (Boolean False),
          ParserResponds 6 (ParseFail (Str ''Malformed input''))]) example_empty) = None
   \<and> children (document (run (example_history @ [CallStopEditing (Boolean False),
          ParserResponds 6 (ParseFail (Str ''Malformed input''))]) example_empty) 0)
      = [Markup (Str ''a'')]
   \<and> children (document (run (example_history @ [CallStopEditing (Boolean False),
          ParserResponds 6 (ParseFail (Str ''Malformed input''))]) example_empty) 1) = []"
proof -
  let ?s = "run example_history example_plain"
  have p: "parseRequests ?s = [\<lparr>pr_ref = 6, pr_rawValue = Str ''b'', pr_valueParser = example_service\<rparr>]"
    and e: "map_option ex_preview (u_expert ?s) = Some None"
    and v: "u_value ?s = Some example_a"
    using example_plain_parsing by simp_all
  have "parserResponds 6 (ParseFail (Str ''Malformed input'')) ?s
      = (Return (), u_trigger ''afterparse'' [] (?s\<lparr>parseRequests := [], u_value := None\<rparr>))"
    using e by (auto simp: parserResponds_fail p u_renderError_def split: option.splits)
  moreover have "u_value (run (example_history @ [CallStopEditing (Boolean False)]) example_empty)
      = Some example_a
   \<and> u_value (run (example_history @ [CallStopEditing (Boolean False),
          ParserResponds 6 (ParseFail (Str ''Malformed input''))]) example_empty) = None
   \<and> u_expert (run (example_history @ [CallStopEditing (Boolean False),
          ParserResponds 6 (ParseFail (Str ''Malformed input''))]) example_empty) = None
   \<and> children (document (run (example_history @ [CallStopEditing (Boolean False),
          ParserResponds 6 (ParseFail (Str ''Malformed input''))]) example_empty) 0)
      = [Markup (Str ''a'')]
   \<and> children (document (run (example_history @ [CallStopEditing (Boolean False),
          ParserResponds 6 (ParseFail (Str ''Malformed input''))]) example_empty) 1) = []"
    by code_simp
  ultimately show ?thesis using e v by simp
qed

text \<open>
  What the two guards discard: a successful answer of the parser whose request was made
  for a raw value that is not \<open>__lastUpdateValue\<close>, and a successful answer of the
  formatter that reports another value than the one its request was made for.
\<close>

lemma guarded_answers_are_discarded:
  "(find (\<lambda>q. pr_ref q = r) (parseRequests this) = Some q
      \<and> (uu_lastUpdateValue this = Undefined \<or> uu_lastUpdateValue this \<noteq> pr_rawValue q)
      \<and> (parsed = Null \<or> instanceof_DataValue parsed) \<longrightarrow>
      parserResponds r (ParseDone parsed) this =
        (Return (),
         u_trigger ''afterparse'' []
           (this\<lparr>parseRequests := filter (\<lambda>q. pr_ref q \<noteq> r) (parseRequests this)\<rparr>)))
   \<and> (find (\<lambda>q. fr_ref q = r') (formatRequests this) = Some fq
      \<and> echoed \<noteq> DV (fr_dataValue fq) \<longrightarrow>
      formatterResponds r' (FormatDone formatted echoed) this =
        (Return (),
         (case fr_callbacks fq of
            TextValueCallbacks cbs \<Rightarrow> (\<lambda>s. s)
          | _ \<Rightarrow> u_trigger ''afterformat'' [])
           (this\<lparr>formatRequests := filter (\<lambda>q. fr_ref q \<noteq> r') (formatRequests this)\<rparr>)))"
  by (auto simp: parserResponds_def formatterResponds_def updateValue_callbacks_def
      updateValue_format_callbacks_def setValue_callbacks_def Let_def
      u_trigger_def split: formatCallbacks.splits)

text \<open>
  C1. The code applies answers that the claim says are discarded. Four histories from
  the creation of a widget:

  \<^item> \<open>value( example_a )\<close>, then \<open>value( example_b )\<close>; the formatter answers the second
    request and then the first. The late answer is compared with the value of its own
    request, which it always equals, not with the view's value: the view ends with the
    value \<open>example_b\<close> and shows the formatted \<open>example_a\<close>.

  \<^item> The user enters \<open>1\<close> and then \<open>2\<close>; the parser answers \<open>2\<close> and then fails, with a
    message, on \<open>1\<close>. The failure is not compared with \<open>__lastUpdateValue\<close> and clears
    the value just accepted.

  \<^item> Two requests are made for the raw value \<open>1\<close>, with precision 1 and then 2. The
    answer to the earlier request is applied and the answer to the most recent one is
    discarded when it arrives.

  \<^item> The user types \<open>ab\<close> and deletes it again. The request for \<open>ab\<close> is still sent, and
    its answer is accepted as the value while the input is empty.
\<close>

theorem late_answers_are_applied:
  "map (\<lambda>q. (fr_ref q, fr_dataValue q))
     (formatRequests (run [CallValue (DV example_a), CallValue (DV example_b)] example_empty))
     = [(2, example_a), (3, example_b)]
   \<and> u_value (run [CallValue (DV example_a), CallValue (DV example_b),
             FormatterResponds 3 (FormatDone (Str ''b'') (DV example_b)),
             FormatterResponds 2 (FormatDone (Str ''a'') (DV example_a))] example_empty)
       = Some example_b
   \<and> u_formattedValue (run [CallValue (DV example_a), CallValue (DV example_b),
             FormatterResponds 3 (FormatDone (Str ''b'') (DV example_b)),
             FormatterResponds 2 (FormatDone (Str ''a'') (DV example_a))] example_empty)
       = Str ''a''
   \<and> children (document (run [CallValue (DV example_a), CallValue (DV example_b),
             FormatterResponds 3 (FormatDone (Str ''b'') (DV example_b)),
             FormatterResponds 2 (FormatDone (Str ''a'') (DV example_a))] example_empty) 0)
       = [Markup (Str ''a'')]
   \<and> u_value (run [CallStartEditing, ExpertInput (Str ''1'') [], TimerFires 3,
             ExpertInput (Str ''2'') [], TimerFires 5,
             ParserResponds 6 (ParseDone (DV example_b))] example_empty) = Some example_b
   \<and> u_value (run [CallStartEditing, ExpertInput (Str ''1'') [], TimerFires 3,
             ExpertInput (Str ''2'') [], TimerFires 5,
             ParserResponds 6 (ParseDone (DV example_b)),
             ParserResponds 4 (ParseFail (Str ''Malformed input''))] example_empty) = None
   \<and> map (\<lambda>q. (pr_ref q, pr_rawValue q, sv_options (pr_valueParser q)))
       (parseRequests (run example_two_requests example_empty))
     = [(4, Str ''1'', example_precision 1), (6, Str ''1'', example_precision 2)]
   \<and> u_value (run (example_two_requests @ [ParserResponds 4 (ParseDone (DV example_a)),
                     ParserResponds 6 (ParseDone (DV example_b))]) example_empty) = Some example_a
   \<and> map_option ex_rawValue
       (u_expert (run [CallStartEditing, ExpertInput (Str ''ab'') [], ExpertInput (Str []) [],
          TimerFires 3] example_empty)) = Some (Str [])
   \<and> map pr_rawValue
       (parseRequests (run [CallStartEditing, ExpertInput (Str ''ab'') [], ExpertInput (Str []) [],
          TimerFires 3] example_empty)) = [Str ''ab'']
   \<and> u_value (run [CallStartEditing, ExpertInput (Str ''ab'') [], ExpertInput (Str []) [],
          TimerFires 3, ParserResponds 4 (ParseDone (DV example_b))] example_empty)
       = Some example_b
   \<and> example_a \<noteq> example_b"
  by code_simp

section \<open>The debounce\<close>

lemma snd_changeDetected [simp]: "snd (changeDetected s) = s"
  by (simp add: changeDetected_def getTextValue_def split: option.splits)

lemma changeDetected_True:
  "fst (changeDetected s) = Return True \<Longrightarrow> changeDetected s = (Return True, s)"
  by (metis prod.collapse snd_changeDetected)

lemma timer_inv_filter:
  "timer_inv s \<Longrightarrow> u_parseTimer s = Some r \<Longrightarrow> filter (\<lambda>t. t_ref t \<noteq> r) (timers s) = []"
  by (auto simp: timer_inv_def list_all_iff filter_empty_conv)

lemma timer_inv_None:
  "timer_inv s \<Longrightarrow> u_parseTimer s = None \<Longrightarrow> timers s = []"
  by (cases "timers s") (auto simp: timer_inv_def)

lemma detected_step:
  assumes "timer_inv s" and "u_expert s = Some e" and "parserStore (options s) = Instance u"
    and "needsParsing rawValue"
    and "fst (changeDetected (withInput rawValue cs s)) = Return True"
  shows "timers (step (ExpertInput rawValue cs) s) =
           [\<lparr>t_ref = Suc (nextRef s), t_delay = parseDelay (options s), t_rawValue = rawValue,
             t_expert = ex_ref e,
             t_valueParser = \<lparr>sv_dataValueType = u_determineDataValueType s,
                               sv_dataTypeId = dataTypeId (options s),
                               sv_lang = language (options s), sv_options = cs\<rparr>\<rparr>]"
    and "u_parseTimer (step (ExpertInput rawValue cs) s) = Some (Suc (nextRef s))"
    and "parseRequests (step (ExpertInput rawValue cs) s) = parseRequests s"
    and "options (step (ExpertInput rawValue cs) s) = options s"
    and "u_expert (step (ExpertInput rawValue cs) s) \<noteq> None"
    and "uu_lastUpdateValue (step (ExpertInput rawValue cs) s) = rawValue"
proof -
  let ?s0 = "s\<lparr>u_expert := Some (e\<lparr>ex_rawValue := rawValue, ex_valueCharacteristics := cs\<rparr>)\<rparr>"
  have w: "withInput rawValue cs s = ?s0" using assms(2) by (simp add: withInput_def)
  have cd: "changeDetected ?s0 = (Return True, ?s0)"
    using assms(5) unfolding w by (rule changeDetected_True)
  have tm: "(case u_parseTimer s of None \<Rightarrow> timers s
             | Some r \<Rightarrow> if r \<noteq> 0 then filter (\<lambda>t. t_ref t \<noteq> r) (timers s) else timers s) = []"
    using assms(1) timer_inv_filter [of s] timer_inv_None [of s]
    by (auto simp: timer_inv_def split: option.splits)
  have st: "step (ExpertInput rawValue cs) s = snd (viewNotifier_change ?s0)"
    using assms(2) by (simp add: expertInput_def)
  show "timers (step (ExpertInput rawValue cs) s) =
           [\<lparr>t_ref = Suc (nextRef s), t_delay = parseDelay (options s), t_rawValue = rawValue,
             t_expert = ex_ref e,
             t_valueParser = \<lparr>sv_dataValueType = u_determineDataValueType s,
                               sv_dataTypeId = dataTypeId (options s),
                               sv_lang = language (options s), sv_options = cs\<rparr>\<rparr>]"
    and "u_parseTimer (step (ExpertInput rawValue cs) s) = Some (Suc (nextRef s))"
    and "parseRequests (step (ExpertInput rawValue cs) s) = parseRequests s"
    and "options (step (ExpertInput rawValue cs) s) = options s"
    and "u_expert (step (ExpertInput rawValue cs) s) \<noteq> None"
    and "uu_lastUpdateValue (step (ExpertInput rawValue cs) s) = rawValue"
    unfolding st using assms(3,4) tm
    by (auto simp: viewNotifier_change_def cd u_updateValue_def u_parseValue_def Let_def
        needsParsing_def u_trigger_def clearTimeout_def u_instantiateParser_def
        valueCharacteristics_def updateValue_callbacks_def u_determineDataValueType_def
        split: option.splits)
qed

lemma timerFires_single:
  "timers s = [t] \<Longrightarrow>
   parseRequests (timerFires (t_ref t) s) =
     parseRequests s @ [\<lparr>pr_ref = Suc (nextRef s), pr_rawValue = t_rawValue t,
                          pr_valueParser = t_valueParser t\<rparr>]
   \<and> timers (timerFires (t_ref t) s) = []"
  by (simp add: timerFires_def Let_def split: option.splits)

lemma run_Cons: "run (e # es) s = run es (step e s)"
  by (simp add: run_def)

lemma inputs_of_Cons: "inputs_of ((rawValue, cs) # rest) = ExpertInput rawValue cs # inputs_of rest"
  by (simp add: inputs_of_def)

lemma detected_run:
  assumes "inputs \<noteq> []" and "detectedChanges inputs s"
    and "timer_inv s" and "u_expert s \<noteq> None" and "parserStore (options s) = Instance u"
  shows "\<exists>t. timers (run (inputs_of inputs) s) = [t]
           \<and> t_rawValue t = fst (last inputs)
           \<and> sv_options (t_valueParser t) = snd (last inputs)
           \<and> t_delay t = parseDelay (options s)
           \<and> u_parseTimer (run (inputs_of inputs) s) = Some (t_ref t)
           \<and> parseRequests (run (inputs_of inputs) s) = parseRequests s"
  using assms
proof (induction inputs arbitrary: s)
  case Nil
  then show ?case by simp
next
  case (Cons x rest)
  obtain rawValue cs where x: "x = (rawValue, cs)" by (cases x)
  obtain e where e: "u_expert s = Some e" using Cons.prems(4) by auto
  let ?s' = "step (ExpertInput rawValue cs) s"
  have np: "needsParsing rawValue" and cd: "fst (changeDetected (withInput rawValue cs s)) = Return True"
    and rest: "detectedChanges rest ?s'"
    using Cons.prems(2) unfolding x by simp_all
  note st = detected_step [OF Cons.prems(3) e Cons.prems(5) np cd]
  show ?case
  proof (cases "rest = []")
    case True
    then show ?thesis
      unfolding x using st by (simp add: inputs_of_def run_def)
  next
    case False
    have inv: "timer_inv ?s'" using st(1,2) by (simp add: timer_inv_def)
    have ps: "parserStore (options ?s') = Instance u" using st(4) Cons.prems(5) by simp
    from Cons.IH [OF False rest inv st(5) ps]
    show ?thesis
      unfolding x inputs_of_Cons run_Cons using False st(3,4) by simp
  qed
qed


lemma example_inputs_detected: "detectedChanges example_inputs (example_editing (Str ''a''))"
  by code_simp

lemma example_editing_fields:
  "timers (example_editing raw) = []" "u_parseTimer (example_editing raw) = None"
  "u_expert (example_editing raw) = Some ((newExpert example_StringValue 2 1)\<lparr>ex_rawValue := raw\<rparr>)"
  "options (example_editing raw) = example_options"
  "parseRequests (example_editing raw) = []"
  by (simp_all add: example_editing_def example_static_def example_empty_fields)



text \<open>
  Nor does a change to a raw value that needs no parsing cancel the pending timer.
\<close>

lemma bypass_keeps_timer:
  "map pr_rawValue
       (parseRequests (run [CallStartEditing, ExpertInput (Str ''ab'') [], ExpertInput Null [],
          TimerFires 3] example_empty)) = [Str ''ab'']"
  by code_simp

section \<open>One surface at a time\<close>

lemmas surface_defs = surface_inv_def editableSurfaceShown_def markupOnly_def isInEditMode_def

lemma surface_inv_updates [simp]:
  "surface_inv (s\<lparr>u_value := v\<rparr>) = surface_inv s"
  "surface_inv (s\<lparr>u_formattedValue := fv\<rparr>) = surface_inv s"
  "surface_inv (s\<lparr>u_textValue := tv\<rparr>) = surface_inv s"
  "surface_inv (s\<lparr>u_initialValue := iv\<rparr>) = surface_inv s"
  "surface_inv (s\<lparr>u_expertConstructor := c\<rparr>) = surface_inv s"
  "surface_inv (s\<lparr>u_parseTimer := pt\<rparr>) = surface_inv s"
  "surface_inv (s\<lparr>uu_lastUpdateValue := lu\<rparr>) = surface_inv s"
  "surface_inv (s\<lparr>uu_lastValueCharacteristics := lc\<rparr>) = surface_inv s"
  "surface_inv (s\<lparr>timers := ts\<rparr>) = surface_inv s"
  "surface_inv (s\<lparr>parseRequests := ps\<rparr>) = surface_inv s"
  "surface_inv (s\<lparr>formatRequests := fs\<rparr>) = surface_inv s"
  "surface_inv (s\<lparr>nextRef := n\<rparr>) = surface_inv s"
  "surface_inv (s\<lparr>triggered := g\<rparr>) = surface_inv s"
  by (simp_all add: surface_defs split: option.splits)

lemmas surface_andThen = andThen_preserves [where P = surface_inv]

lemma surface_trigger [simp]: "surface_inv (u_trigger n a s) = surface_inv s"
  by (simp add: u_trigger_def)

lemma surface_fire [simp]: "surface_inv (fire cbs s) = surface_inv s"
  by (simp add: fire_def)

lemma surface_renderError [simp]: "surface_inv (u_renderError m s) = surface_inv s"
  by (simp add: u_renderError_def surface_defs split: option.splits)

lemma surface_destroyExpert: "surface_inv s \<Longrightarrow> surface_inv (snd (u_destroyExpert s))"
  by (auto simp: u_destroyExpert_def Expert_destroy_def surface_defs split: option.splits)

lemma surface_newExpert:
  assumes "surface_inv s" and "u_expert s = None"
    and "Expert_init (newExpert c r (dollar_value s)) (document s) = Some (e', d')"
  shows "surface_inv (s\<lparr>u_expert := Some e', document := d'\<rparr>)"
  using assms by (auto simp: Expert_init_def newExpert_def surface_defs)

lemma expert_destroyExpert: "u_expert (snd (u_destroyExpert s)) = None"
  by (simp add: u_destroyExpert_def split: option.splits)

lemma surface_updateExpert: "surface_inv s \<Longrightarrow> surface_inv (snd (u_updateExpert s))"
proof -
  assume inv: "surface_inv s"
  let ?r = "if u_expert s \<noteq> None then u_destroyExpert s else (Return (), s)"
  have r: "surface_inv (snd ?r) \<and> u_expert (snd ?r) = None"
    using inv by (auto simp: surface_destroyExpert expert_destroyExpert)
  have k: "surface_inv s1 \<and> u_expert s1 = None \<Longrightarrow>
      surface_inv (snd (case u_expertConstructor s1 of
             None \<Rightarrow> (Return (), s1)
           | Some c \<Rightarrow>
               (let r = Suc (nextRef s1);
                    e = newExpert c r (dollar_value s1)
                in (case Expert_init e (document s1) of
                      None \<Rightarrow> (Throw (TypeError ''this.$viewPort is null''), s1)
                    | Some (e', d') \<Rightarrow>
                        (Return (), s1\<lparr>u_expert := Some e', document := d', nextRef := r\<rparr>)))))" for s1
    by (auto simp: Let_def surface_newExpert split: option.splits)
  have "surface_inv (snd (andThen ?r (\<lambda>_ s1. case u_expertConstructor s1 of
             None \<Rightarrow> (Return (), s1)
           | Some c \<Rightarrow>
               (let r = Suc (nextRef s1);
                    e = newExpert c r (dollar_value s1)
                in (case Expert_init e (document s1) of
                      None \<Rightarrow> (Throw (TypeError ''this.$viewPort is null''), s1)
                    | Some (e', d') \<Rightarrow>
                        (Return (), s1\<lparr>u_expert := Some e', document := d', nextRef := r\<rparr>))))))"
    using r k
    by (cases ?r; cases "fst ?r") (auto simp del: split_paired_All)
  then show ?thesis using inv by (auto simp: u_updateExpert_def)
qed

lemma jq_html_markup:
  "list_all is_Markup (children n) \<Longrightarrow> list_all is_Markup (children (jq_html v n))"
  by (induction v n rule: jq_html.induct) auto

lemma surface_drawStaticContent:
  "surface_inv s \<Longrightarrow> \<not> isInEditMode s \<Longrightarrow> surface_inv (drawStaticContent s)"
  by (auto simp: drawStaticContent_def surface_defs jq_html_markup split: option.splits)

lemma surface_Expert_draw:
  "surface_inv s \<Longrightarrow> u_expert s = Some e \<Longrightarrow> surface_inv (s\<lparr>u_expert := Some (Expert_draw e)\<rparr>)"
  by (auto simp: surface_defs Expert_draw_def)

lemma surface_drawContent_then:
  "surface_inv s \<Longrightarrow> surface_inv (snd (drawContent_then cbs s))"
  unfolding drawContent_then_def
  by (auto intro!: surface_andThen simp: surface_updateExpert surface_Expert_draw Let_def
      split: option.splits)

lemma surface_updateTextValue:
  "surface_inv s \<Longrightarrow> surface_inv (snd (u_updateTextValue cbs s))"
  unfolding u_updateTextValue_def
  by (auto intro!: surface_andThen simp: Let_def split: option.splits)

lemma surface_drawContent:
  "surface_inv s \<Longrightarrow> surface_inv (snd (drawContent cbs s))"
  unfolding drawContent_def
  by (auto intro!: surface_andThen simp: surface_updateTextValue surface_drawContent_then
      surface_drawStaticContent)

lemma surface_classes:
  "children n' = children (document s (element s)) \<Longrightarrow>
   surface_inv (s\<lparr>document := (document s)(element s := n')\<rparr>) = surface_inv s"
  by (auto simp: surface_defs split: option.splits)

lemma children_classes [simp]:
  "children (jq_addClass c n) = children n" "children (jq_removeClass c n) = children n"
  by (simp_all add: jq_addClass_def jq_removeClass_def)

lemma surface_draw: "surface_inv s \<Longrightarrow> surface_inv (snd (draw cbs s))"
  unfolding draw_def
  by (simp add: Let_def surface_drawContent surface_classes)

lemma surface_formatValue: "surface_inv s \<Longrightarrow> surface_inv (snd (u_formatValue v c s))"
  unfolding u_formatValue_def
  by (auto intro!: surface_andThen simp: Let_def)

lemma surface_updateExpertConstructor:
  "surface_inv s \<Longrightarrow> surface_inv (snd (u_updateExpertConstructor s))"
  by (simp add: u_updateExpertConstructor_def Let_def split: store.splits)

lemma surface_setValue: "surface_inv s \<Longrightarrow> surface_inv (snd (u_setValue v s))"
  unfolding u_setValue_def
  by (auto intro!: surface_andThen simp: surface_updateExpertConstructor surface_draw
      surface_formatValue split: option.splits)

lemma surface_value_fn: "surface_inv s \<Longrightarrow> surface_inv (snd (value_fn v s))"
  unfolding value_fn_def
  by (auto intro!: surface_andThen simp: surface_setValue)

lemma surface_startEditing: "surface_inv s \<Longrightarrow> surface_inv (snd (startEditing s))"
proof (cases "isInEditMode s")
  case True
  then show "surface_inv s \<Longrightarrow> ?thesis" by (simp add: startEditing_def)
next
  case False
  assume inv: "surface_inv s"
  have "surface_inv (s\<lparr>u_initialValue := u_value s, u_isInEditMode := True,
           document := (document s)(element s := jq_html_node (dollar_value s) (document s (element s)))\<rparr>)"
    using inv by (auto simp: surface_defs jq_html_node_def split: option.splits)
  then show ?thesis using False by (simp add: startEditing_def Let_def surface_draw)
qed

lemma leaving_destroyExpert: "leaving s \<Longrightarrow> leaving (snd (u_destroyExpert s))"
  by (auto simp: u_destroyExpert_def Expert_destroy_def leaving_def surface_defs
      split: option.splits)

lemma leaving_detach:
  "leaving s \<Longrightarrow> surface_inv (s\<lparr>document := jq_detach (dollar_value s) (document s)\<rparr>)"
  by (auto simp: leaving_def surface_defs jq_detach_def split: option.splits)

lemma destroy_if_expert:
  "(if u_expert s \<noteq> None then u_destroyExpert s else (Return (), s))
   = (Return (), snd (if u_expert s \<noteq> None then u_destroyExpert s else (Return (), s)))"
  by (cases "u_expert s") (simp_all add: u_destroyExpert_def)

lemma surface_stopEditing_tail:
  assumes "leaving s2"
  shows "surface_inv (snd (andThen (if u_expert s2 \<noteq> None then u_destroyExpert s2 else (Return (), s2))
           (\<lambda>_ s3. draw cbs (s3\<lparr>document := jq_detach (dollar_value s3) (document s3)\<rparr>))))"
proof -
  let ?r = "if u_expert s2 \<noteq> None then u_destroyExpert s2 else (Return (), s2)"
  have r: "leaving (snd ?r)" using assms by (simp add: leaving_destroyExpert)
  show ?thesis
    by (subst destroy_if_expert) (simp only: andThen_Return surface_draw leaving_detach [OF r])
qed

lemma surface_leaving:
  "surface_inv s \<Longrightarrow> isInEditMode s \<Longrightarrow>
   leaving (s\<lparr>u_initialValue := None, u_isInEditMode := False, uu_lastValueCharacteristics := None\<rparr>)"
  by (auto simp: leaving_def surface_defs split: option.splits)

lemma surface_stopEditing_rest:
  assumes "surface_inv s1" and "isInEditMode s1"
  shows "surface_inv (snd
          (let s2 = s1\<lparr>u_initialValue := None, u_isInEditMode := False,
                       uu_lastValueCharacteristics := None\<rparr>
           in andThen (if u_expert s2 \<noteq> None then u_destroyExpert s2 else (Return (), s2))
                (\<lambda>_ s3.
                  draw cbs (s3\<lparr>document := jq_detach (dollar_value s3) (document s3)\<rparr>))))"
  unfolding Let_def
  by (rule surface_stopEditing_tail) (rule surface_leaving [OF assms])

lemma surface_stopEditing: "surface_inv s \<Longrightarrow> surface_inv (snd (stopEditing d s))"
proof (cases "isInEditMode s")
  case False
  then show "surface_inv s \<Longrightarrow> ?thesis" by (simp add: stopEditing_def)
next
  case True
  assume inv: "surface_inv s"
  let ?r = "if truthy d then value_fn (js_of (initialValue s)) s else (Return Undefined, s)"
  let ?k = "\<lambda>(_::jsval) s1.
          (let s2 = s1\<lparr>u_initialValue := None, u_isInEditMode := False,
                       uu_lastValueCharacteristics := None\<rparr>
           in andThen (if u_expert s2 \<noteq> None then u_destroyExpert s2 else (Return (), s2))
                (\<lambda>_ s3.
                  draw [(''afterstopediting'', [Boolean (truthy d)])]
                    (s3\<lparr>document := jq_detach (dollar_value s3) (document s3)\<rparr>)))"
  have q: "surface_inv (snd ?r)" "isInEditMode (snd ?r)"
    using inv True by (simp_all add: surface_value_fn)
  have "surface_inv (snd (andThen ?r ?k))"
  proof (cases ?r)
    case (Pair c b)
    show ?thesis
    proof (cases c)
      case (Return x)
      have "surface_inv (snd (?k x b))"
        using q unfolding Pair by (intro surface_stopEditing_rest) simp_all
      then show ?thesis unfolding Pair Return by (simp only: andThen_Return)
    next
      case (Throw e)
      then show ?thesis using q unfolding Pair by simp
    qed
  qed
  then show ?thesis using True by (simp add: stopEditing_def)
qed

lemma surface_updateValue_callbacks:
  "surface_inv s \<Longrightarrow> surface_inv (snd (updateValue_callbacks p s))"
  by (cases p)
     (auto simp: updateValue_callbacks_def Let_def surface_drawContent surface_formatValue
       split: option.splits)

lemma surface_updateValue_format_callbacks:
  "surface_inv s \<Longrightarrow> surface_inv (snd (updateValue_format_callbacks p s))"
  by (cases p) (auto simp: updateValue_format_callbacks_def surface_drawContent)

lemma surface_setValue_callbacks:
  "surface_inv s \<Longrightarrow> surface_inv (snd (setValue_callbacks p s))"
  by (cases p) (auto simp: setValue_callbacks_def surface_draw)

lemma surface_parserResponds:
  "surface_inv s \<Longrightarrow> surface_inv (snd (parserResponds r response s))"
  unfolding parserResponds_def
  by (auto intro!: surface_andThen simp: Let_def surface_updateValue_callbacks
      split: option.splits parseResponse.splits)

lemma surface_formatterResponds:
  "surface_inv s \<Longrightarrow> surface_inv (snd (formatterResponds r response s))"
  unfolding formatterResponds_def
  by (auto intro!: surface_andThen simp: Let_def surface_updateValue_format_callbacks
      surface_setValue_callbacks surface_drawContent_then
      split: option.splits formatResponse.splits formatCallbacks.splits promise.splits)

lemma surface_expert_fields:
  "u_expert s = Some e \<Longrightarrow> viewPort e' = viewPort e \<Longrightarrow>
   surface_inv (s\<lparr>u_expert := Some e'\<rparr>) = surface_inv s"
  by (auto simp: surface_defs)

lemma surface_timerFires: "surface_inv s \<Longrightarrow> surface_inv (timerFires r s)"
  by (auto simp: timerFires_def Let_def surface_expert_fields split: option.splits)

lemma surface_parseValue: "surface_inv s \<Longrightarrow> surface_inv (snd (u_parseValue s))"
  unfolding u_parseValue_def
  by (auto intro!: surface_andThen simp: Let_def clearTimeout_def split: option.splits)

lemma surface_updateValue: "surface_inv s \<Longrightarrow> surface_inv (snd (u_updateValue s))"
  unfolding u_updateValue_def
  by (auto intro!: surface_andThen simp: surface_parseValue surface_updateValue_callbacks)

lemma surface_viewNotifier_change:
  "surface_inv s \<Longrightarrow> surface_inv (snd (viewNotifier_change s))"
  unfolding viewNotifier_change_def
  by (auto intro!: surface_andThen simp: surface_updateValue split: option.splits)

lemma surface_expertInput: "surface_inv s \<Longrightarrow> surface_inv (snd (expertInput rawValue cs s))"
  unfolding expertInput_def
  by (auto simp: surface_viewNotifier_change surface_expert_fields split: option.splits)

lemma surface_step: "surface_inv s \<Longrightarrow> surface_inv (step ev s)"
  by (cases ev)
     (simp_all add: surface_startEditing surface_stopEditing cancelEditing_def surface_value_fn
       surface_draw surface_expertInput surface_timerFires surface_parserResponds
       surface_formatterResponds)

lemma surface_run: "surface_inv s \<Longrightarrow> surface_inv (run evs s)"
  unfolding run_def by (induction evs arbitrary: s) (simp_all add: surface_step)

lemma surface_initValue: "surface_inv s \<Longrightarrow> surface_inv (snd (u_initValue h v s))"
  unfolding u_initValue_def
  by (auto intro!: surface_andThen simp: surface_value_fn surface_updateExpertConstructor
      surface_draw)

lemma surface_prototype: "surface_inv (prototype opts ns html)"
  by (simp add: prototype_def surface_defs)

lemma surface_create: "surface_inv (snd (u_create opts ns html))"
proof -
  let ?this = "prototype opts ns html"
  have "surface_inv (?this\<lparr>document := (document ?this)
                        (element ?this := jq_addClass ''valueview'' (document ?this (element ?this)),
                         dollar_value ?this := \<lparr>classes = [''valueview-value''], children = []\<rparr>)\<rparr>)"
    by (simp add: prototype_def surface_defs)
  then show ?thesis
    unfolding u_create_def Let_def
    by (auto intro!: surface_andThen simp: surface_prototype surface_initValue surface_startEditing)
qed

lemma jq_html_idem [simp]: "children (jq_html v (jq_html v n)) = children (jq_html v n)"
  by (induction v n rule: jq_html.induct) auto

lemma jq_html_classes:
  "children n' = children n \<Longrightarrow> children (jq_html v n') = children (jq_html v n)"
  by (induction v n rule: jq_html.induct) auto

lemma jq_html_addClass [simp]:
  "children (jq_html v (jq_addClass c n)) = children (jq_html v n)"
  "children (jq_html v (jq_removeClass c n)) = children (jq_html v n)"
  by (rule jq_html_classes, simp)+

lemma formattedValueShown_draw:
  "\<not> isInEditMode s \<Longrightarrow> formattedValueShown (snd (draw cbs s))"
  by (simp add: formattedValueShown_def draw_def Let_def drawContent_def drawStaticContent_def
      isInEditMode_def getFormattedValue_def fire_def)

lemma static_inv_updates [simp]:
  "static_inv (s\<lparr>u_value := v\<rparr>) = static_inv s"
  "static_inv (s\<lparr>u_textValue := tv\<rparr>) = static_inv s"
  "static_inv (s\<lparr>u_initialValue := iv\<rparr>) = static_inv s"
  "static_inv (s\<lparr>u_expert := ex\<rparr>) = static_inv s"
  "static_inv (s\<lparr>u_expertConstructor := c\<rparr>) = static_inv s"
  "static_inv (s\<lparr>u_parseTimer := pt\<rparr>) = static_inv s"
  "static_inv (s\<lparr>uu_lastUpdateValue := lu\<rparr>) = static_inv s"
  "static_inv (s\<lparr>uu_lastValueCharacteristics := lc\<rparr>) = static_inv s"
  "static_inv (s\<lparr>timers := ts\<rparr>) = static_inv s"
  "static_inv (s\<lparr>parseRequests := ps\<rparr>) = static_inv s"
  "static_inv (s\<lparr>formatRequests := fs\<rparr>) = static_inv s"
  "static_inv (s\<lparr>nextRef := n\<rparr>) = static_inv s"
  "static_inv (s\<lparr>triggered := g\<rparr>) = static_inv s"
  by (simp_all add: static_inv_def formattedValueShown_def isInEditMode_def getFormattedValue_def)

lemma static_inv_Null [simp]: "static_inv (s\<lparr>u_formattedValue := Null\<rparr>)"
  by (simp add: static_inv_def formattedValueShown_def)

lemma static_inv_editing: "isInEditMode s \<Longrightarrow> static_inv s"
  by (simp add: static_inv_def formattedValueShown_def)

lemmas static_andThen = andThen_preserves [where P = static_inv]

lemma static_trigger [simp]: "static_inv (u_trigger n a s) = static_inv s"
  by (simp add: u_trigger_def)

lemma static_fire [simp]: "static_inv (fire cbs s) = static_inv s"
  by (simp add: fire_def)

lemma static_renderError [simp]: "static_inv (u_renderError m s) = static_inv s"
  by (simp add: u_renderError_def split: option.splits)

lemma static_drawStaticContent: "static_inv (drawStaticContent s)"
  by (simp add: static_inv_def formattedValueShown_def drawStaticContent_def getFormattedValue_def isInEditMode_def)

lemma editing_drawContent_then:
  "isInEditMode (snd (drawContent_then cbs s)) = isInEditMode s"
  by (simp add: isInEditMode_def)

lemma static_drawContent_then: "static_inv s \<Longrightarrow> static_inv (snd (drawContent_then cbs s))"
proof (cases "isInEditMode s")
  case True
  then have "isInEditMode (snd (drawContent_then cbs s))" by (simp add: isInEditMode_def)
  then show ?thesis by (rule static_inv_editing)
next
  case False
  then show "static_inv s \<Longrightarrow> ?thesis" by (simp add: drawContent_then_def)
qed

lemma static_drawContent: "static_inv (snd (drawContent cbs s))"
proof (cases "isInEditMode s")
  case True
  then have "isInEditMode (snd (drawContent cbs s))" by (simp add: isInEditMode_def)
  then show ?thesis by (rule static_inv_editing)
next
  case False
  then show ?thesis by (simp add: drawContent_def static_drawStaticContent)
qed

lemma static_draw: "static_inv (snd (draw cbs s))"
  unfolding draw_def Let_def by (rule static_drawContent)

lemma static_formatValue: "static_inv s \<Longrightarrow> static_inv (snd (u_formatValue v c s))"
  unfolding u_formatValue_def
  by (auto intro!: static_andThen simp: Let_def)

lemma static_updateExpertConstructor:
  "static_inv s \<Longrightarrow> static_inv (snd (u_updateExpertConstructor s))"
  by (simp add: u_updateExpertConstructor_def Let_def split: store.splits)

lemma static_setValue: "static_inv s \<Longrightarrow> static_inv (snd (u_setValue v s))"
  unfolding u_setValue_def
  by (auto intro!: static_andThen simp: static_updateExpertConstructor static_draw
      static_formatValue split: option.splits)

lemma static_value_fn: "static_inv s \<Longrightarrow> static_inv (snd (value_fn v s))"
  unfolding value_fn_def
  by (auto intro!: static_andThen simp: static_setValue)

lemma static_startEditing: "static_inv s \<Longrightarrow> static_inv (snd (startEditing s))"
  by (simp add: startEditing_def Let_def static_draw)


lemma static_stopEditing_tail:
  "static_inv (snd (andThen (if u_expert s2 \<noteq> None then u_destroyExpert s2 else (Return (), s2))
           (\<lambda>_ s3. draw cbs (s3\<lparr>document := jq_detach (dollar_value s3) (document s3)\<rparr>))))"
  by (subst destroy_if_expert) (simp only: andThen_Return static_draw)

lemma static_stopEditing: "static_inv s \<Longrightarrow> static_inv (snd (stopEditing d s))"
proof (cases "isInEditMode s")
  case False
  then show "static_inv s \<Longrightarrow> ?thesis" by (simp add: stopEditing_def)
next
  case True
  let ?r = "if truthy d then value_fn (js_of (initialValue s)) s else (Return Undefined, s)"
  let ?k = "\<lambda>(_::jsval) s1.
          (let s2 = s1\<lparr>u_initialValue := None, u_isInEditMode := False,
                       uu_lastValueCharacteristics := None\<rparr>
           in andThen (if u_expert s2 \<noteq> None then u_destroyExpert s2 else (Return (), s2))
                (\<lambda>_ s3.
                  draw [(''afterstopediting'', [Boolean (truthy d)])]
                    (s3\<lparr>document := jq_detach (dollar_value s3) (document s3)\<rparr>)))"
  have q: "isInEditMode (snd ?r)" using True by (simp add: isInEditMode_def)
  have "static_inv (snd (andThen ?r ?k))"
  proof (cases ?r)
    case (Pair c b)
    show ?thesis
    proof (cases c)
      case (Return x)
      have "static_inv (snd (?k x b))"
        unfolding Let_def by (rule static_stopEditing_tail)
      then show ?thesis unfolding Pair Return by (simp only: andThen_Return)
    next
      case (Throw e)
      then show ?thesis using q unfolding Pair by (simp add: static_inv_editing)
    qed
  qed
  then show ?thesis using True by (simp add: stopEditing_def)
qed

lemma static_updateValue_callbacks:
  "static_inv s \<Longrightarrow> static_inv (snd (updateValue_callbacks p s))"
  by (cases p)
     (auto simp: updateValue_callbacks_def Let_def static_drawContent static_formatValue
       split: option.splits)

lemma static_updateValue_format_callbacks:
  "static_inv s \<Longrightarrow> static_inv (snd (updateValue_format_callbacks p s))"
  by (cases p) (auto simp: updateValue_format_callbacks_def static_drawContent)

lemma static_setValue_callbacks:
  "static_inv s \<Longrightarrow> static_inv (snd (setValue_callbacks p s))"
  by (cases p) (auto simp: setValue_callbacks_def static_draw)

lemma static_parserResponds:
  "static_inv s \<Longrightarrow> static_inv (snd (parserResponds r response s))"
  unfolding parserResponds_def
  by (auto intro!: static_andThen simp: Let_def static_updateValue_callbacks
      split: option.splits parseResponse.splits)

lemma static_formatterResponds:
  "static_inv s \<Longrightarrow> static_inv (snd (formatterResponds r response s))"
  unfolding formatterResponds_def
  by (auto intro!: static_andThen simp: Let_def static_updateValue_format_callbacks
      static_setValue_callbacks static_drawContent_then
      split: option.splits formatResponse.splits formatCallbacks.splits promise.splits)

lemma static_timerFires: "static_inv s \<Longrightarrow> static_inv (timerFires r s)"
  by (auto simp: timerFires_def Let_def split: option.splits)

lemma static_parseValue: "static_inv s \<Longrightarrow> static_inv (snd (u_parseValue s))"
  unfolding u_parseValue_def
  by (auto intro!: static_andThen simp: Let_def clearTimeout_def split: option.splits)

lemma static_updateValue: "static_inv s \<Longrightarrow> static_inv (snd (u_updateValue s))"
  unfolding u_updateValue_def
  by (auto intro!: static_andThen simp: static_parseValue static_updateValue_callbacks)

lemma static_viewNotifier_change:
  "static_inv s \<Longrightarrow> static_inv (snd (viewNotifier_change s))"
  unfolding viewNotifier_change_def
  by (auto intro!: static_andThen simp: static_updateValue split: option.splits)

lemma static_expertInput: "static_inv s \<Longrightarrow> static_inv (snd (expertInput rawValue cs s))"
  unfolding expertInput_def
  by (auto simp: static_viewNotifier_change split: option.splits)

lemma static_step: "static_inv s \<Longrightarrow> static_inv (step ev s)"
  by (cases ev)
     (simp_all add: static_startEditing static_stopEditing cancelEditing_def static_value_fn
       static_draw static_expertInput static_timerFires static_parserResponds
       static_formatterResponds)

lemma static_run: "static_inv s \<Longrightarrow> static_inv (run evs s)"
  unfolding run_def by (induction evs arbitrary: s) (simp_all add: static_step)

lemma static_initValue:
  "static_inv s \<Longrightarrow> children (document s (element s)) = children (jq_html (Str h) n) \<Longrightarrow>
   static_inv (snd (u_initValue h v s))"
proof -
  assume inv: "static_inv s"
    and el: "children (document s (element s)) = children (jq_html (Str h) n)"
  have "static_inv (s\<lparr>u_value := v, u_formattedValue := Str h\<rparr>)"
    using el by (simp add: static_inv_def formattedValueShown_def getFormattedValue_def isInEditMode_def)
  then have "static_inv (snd (u_updateExpertConstructor (s\<lparr>u_value := v, u_formattedValue := Str h\<rparr>)))"
    by (rule static_updateExpertConstructor)
  then show ?thesis
    using inv unfolding u_initValue_def
    by (auto intro!: static_andThen simp: static_value_fn static_draw)
qed

lemma static_create: "static_inv (snd (u_create opts ns html))"
proof -
  let ?w = "prototype opts ns html"
  let ?s1 = "?w\<lparr>document := (document ?w)
                        (element ?w := jq_addClass ''valueview'' (document ?w (element ?w)),
                         dollar_value ?w := \<lparr>classes = [''valueview-value''], children = []\<rparr>)\<rparr>"
  have p: "static_inv ?w" by (simp add: prototype_def static_inv_def formattedValueShown_def)
  have "static_inv ?s1"
    by (simp add: prototype_def static_inv_def formattedValueShown_def)
  moreover have "children (document ?s1 (element ?s1))
      = children (jq_html (Str html) \<lparr>classes = [], children = []\<rparr>)"
    by (simp add: prototype_def)
  ultimately have "static_inv (snd (u_initValue html (option_value opts) ?s1))"
    by (rule static_initValue)
  then show ?thesis
    unfolding u_create_def Let_def
    by (auto intro!: static_andThen simp: p static_startEditing)
qed

lemma draw_static_content:
  "\<not> isInEditMode s \<Longrightarrow>
   children (document (snd (draw cbs s)) (element s))
     = children (jq_html (getFormattedValue s) (document s (element s)))"
  by (simp add: draw_def Let_def drawContent_def drawStaticContent_def isInEditMode_def
      getFormattedValue_def fire_def)

lemma expert_inv_updates [simp]:
  "expert_inv (s\<lparr>u_value := v\<rparr>) = expert_inv s"
  "expert_inv (s\<lparr>u_formattedValue := fv\<rparr>) = expert_inv s"
  "expert_inv (s\<lparr>u_textValue := tv\<rparr>) = expert_inv s"
  "expert_inv (s\<lparr>u_initialValue := iv\<rparr>) = expert_inv s"
  "expert_inv (s\<lparr>u_expertConstructor := c\<rparr>) = expert_inv s"
  "expert_inv (s\<lparr>u_parseTimer := pt\<rparr>) = expert_inv s"
  "expert_inv (s\<lparr>uu_lastUpdateValue := lu\<rparr>) = expert_inv s"
  "expert_inv (s\<lparr>uu_lastValueCharacteristics := lc\<rparr>) = expert_inv s"
  "expert_inv (s\<lparr>document := d\<rparr>) = expert_inv s"
  "expert_inv (s\<lparr>timers := ts\<rparr>) = expert_inv s"
  "expert_inv (s\<lparr>parseRequests := ps\<rparr>) = expert_inv s"
  "expert_inv (s\<lparr>formatRequests := fs\<rparr>) = expert_inv s"
  "expert_inv (s\<lparr>nextRef := n\<rparr>) = expert_inv s"
  "expert_inv (s\<lparr>triggered := g\<rparr>) = expert_inv s"
  by (simp_all add: expert_inv_def isInEditMode_def)

lemma expert_inv_editing: "isInEditMode s \<Longrightarrow> expert_inv s"
  by (simp add: expert_inv_def)

lemma expert_inv_Some:
  "expert_inv s \<Longrightarrow> u_expert s = Some e \<Longrightarrow> expert_inv (s\<lparr>u_expert := Some e'\<rparr>)"
  by (auto simp: expert_inv_def isInEditMode_def)

lemmas expert_andThen = andThen_preserves [where P = expert_inv]

lemma expert_trigger [simp]: "expert_inv (u_trigger n a s) = expert_inv s"
  by (simp add: u_trigger_def)

lemma expert_fire [simp]: "expert_inv (fire cbs s) = expert_inv s"
  by (simp add: fire_def)

lemma expert_renderError: "expert_inv s \<Longrightarrow> expert_inv (u_renderError m s)"
  by (auto simp: u_renderError_def expert_inv_def isInEditMode_def split: option.splits)

lemma expert_drawContent_then: "expert_inv s \<Longrightarrow> expert_inv (snd (drawContent_then cbs s))"
proof (cases "isInEditMode s")
  case True
  then have "isInEditMode (snd (drawContent_then cbs s))" by (simp add: isInEditMode_def)
  then show ?thesis by (rule expert_inv_editing)
next
  case False
  then show "expert_inv s \<Longrightarrow> ?thesis" by (simp add: drawContent_then_def)
qed

lemma expert_drawContent: "expert_inv s \<Longrightarrow> expert_inv (snd (drawContent cbs s))"
proof (cases "isInEditMode s")
  case True
  then have "isInEditMode (snd (drawContent cbs s))" by (simp add: isInEditMode_def)
  then show ?thesis by (rule expert_inv_editing)
next
  case False
  then show "expert_inv s \<Longrightarrow> ?thesis"
    by (simp add: drawContent_def drawStaticContent_def)
qed

lemma expert_draw: "expert_inv s \<Longrightarrow> expert_inv (snd (draw cbs s))"
  unfolding draw_def Let_def by (simp add: expert_drawContent)

lemma expert_formatValue: "expert_inv s \<Longrightarrow> expert_inv (snd (u_formatValue v c s))"
  unfolding u_formatValue_def
  by (auto intro!: expert_andThen simp: Let_def)

lemma expert_updateExpertConstructor:
  "expert_inv s \<Longrightarrow> expert_inv (snd (u_updateExpertConstructor s))"
  by (simp add: u_updateExpertConstructor_def Let_def split: store.splits)

lemma expert_setValue: "expert_inv s \<Longrightarrow> expert_inv (snd (u_setValue v s))"
  unfolding u_setValue_def
  by (auto intro!: expert_andThen simp: expert_updateExpertConstructor expert_draw
      expert_formatValue split: option.splits)

lemma expert_value_fn: "expert_inv s \<Longrightarrow> expert_inv (snd (value_fn v s))"
  unfolding value_fn_def
  by (auto intro!: expert_andThen simp: expert_setValue)

lemma expert_startEditing: "expert_inv s \<Longrightarrow> expert_inv (snd (startEditing s))"
proof (cases "isInEditMode s")
  case True
  then show "expert_inv s \<Longrightarrow> ?thesis" by (simp add: startEditing_def)
next
  case False
  have "isInEditMode (snd (startEditing s))"
    using False by (simp add: startEditing_def Let_def isInEditMode_def)
  then show ?thesis by (rule expert_inv_editing)
qed

lemma expert_stopEditing_tail:
  "expert_inv (snd (andThen (if u_expert s2 \<noteq> None then u_destroyExpert s2 else (Return (), s2))
           (\<lambda>_ s3. draw cbs (s3\<lparr>document := jq_detach (dollar_value s3) (document s3)\<rparr>))))"
proof -
  let ?s3 = "snd (if u_expert s2 \<noteq> None then u_destroyExpert s2 else (Return (), s2))"
  have "u_expert ?s3 = None" by (simp add: expert_destroyExpert)
  then have "expert_inv (?s3\<lparr>document := jq_detach (dollar_value ?s3) (document ?s3)\<rparr>)"
    by (simp add: expert_inv_def)
  then have "expert_inv (snd (draw cbs (?s3\<lparr>document := jq_detach (dollar_value ?s3) (document ?s3)\<rparr>)))"
    by (rule expert_draw)
  then show ?thesis
    by (subst destroy_if_expert) (simp only: andThen_Return)
qed

lemma expert_stopEditing: "expert_inv s \<Longrightarrow> expert_inv (snd (stopEditing d s))"
proof (cases "isInEditMode s")
  case False
  then show "expert_inv s \<Longrightarrow> ?thesis" by (simp add: stopEditing_def)
next
  case True
  let ?r = "if truthy d then value_fn (js_of (initialValue s)) s else (Return Undefined, s)"
  let ?k = "\<lambda>(_::jsval) s1.
          (let s2 = s1\<lparr>u_initialValue := None, u_isInEditMode := False,
                       uu_lastValueCharacteristics := None\<rparr>
           in andThen (if u_expert s2 \<noteq> None then u_destroyExpert s2 else (Return (), s2))
                (\<lambda>_ s3.
                  draw [(''afterstopediting'', [Boolean (truthy d)])]
                    (s3\<lparr>document := jq_detach (dollar_value s3) (document s3)\<rparr>)))"
  have q: "isInEditMode (snd ?r)" using True by (simp add: isInEditMode_def)
  have "expert_inv (snd (andThen ?r ?k))"
  proof (cases ?r)
    case (Pair c b)
    show ?thesis
    proof (cases c)
      case (Return x)
      have "expert_inv (snd (?k x b))"
        unfolding Let_def by (rule expert_stopEditing_tail)
      then show ?thesis unfolding Pair Return by (simp only: andThen_Return)
    next
      case (Throw e)
      then show ?thesis using q unfolding Pair by (simp add: expert_inv_editing)
    qed
  qed
  then show ?thesis using True by (simp add: stopEditing_def)
qed

lemma expert_updateValue_callbacks:
  "expert_inv s \<Longrightarrow> expert_inv (snd (updateValue_callbacks p s))"
  by (cases p)
     (auto simp: updateValue_callbacks_def Let_def expert_drawContent expert_formatValue
       expert_renderError split: option.splits)

lemma expert_updateValue_format_callbacks:
  "expert_inv s \<Longrightarrow> expert_inv (snd (updateValue_format_callbacks p s))"
  by (cases p) (auto simp: updateValue_format_callbacks_def expert_drawContent expert_renderError)

lemma expert_setValue_callbacks:
  "expert_inv s \<Longrightarrow> expert_inv (snd (setValue_callbacks p s))"
  by (cases p) (auto simp: setValue_callbacks_def expert_draw expert_renderError)

lemma expert_parserResponds:
  "expert_inv s \<Longrightarrow> expert_inv (snd (parserResponds r response s))"
  unfolding parserResponds_def
  by (auto intro!: expert_andThen simp: Let_def expert_updateValue_callbacks
      split: option.splits parseResponse.splits)

lemma expert_formatterResponds:
  "expert_inv s \<Longrightarrow> expert_inv (snd (formatterResponds r response s))"
  unfolding formatterResponds_def
  by (auto intro!: expert_andThen simp: Let_def expert_updateValue_format_callbacks
      expert_setValue_callbacks expert_drawContent_then
      split: option.splits formatResponse.splits formatCallbacks.splits promise.splits)

lemma expert_timerFires: "expert_inv s \<Longrightarrow> expert_inv (timerFires r s)"
  by (auto simp: timerFires_def Let_def expert_inv_Some split: option.splits)

lemma expert_parseValue: "expert_inv s \<Longrightarrow> expert_inv (snd (u_parseValue s))"
  unfolding u_parseValue_def
  by (auto intro!: expert_andThen simp: Let_def clearTimeout_def split: option.splits)

lemma expert_updateValue: "expert_inv s \<Longrightarrow> expert_inv (snd (u_updateValue s))"
  unfolding u_updateValue_def
  by (auto intro!: expert_andThen simp: expert_parseValue expert_updateValue_callbacks)

lemma expert_viewNotifier_change:
  "expert_inv s \<Longrightarrow> expert_inv (snd (viewNotifier_change s))"
  unfolding viewNotifier_change_def
  by (auto intro!: expert_andThen simp: expert_updateValue split: option.splits)

lemma expert_expertInput: "expert_inv s \<Longrightarrow> expert_inv (snd (expertInput rawValue cs s))"
  unfolding expertInput_def
  by (auto simp: expert_viewNotifier_change expert_inv_Some split: option.splits)

lemma expert_step: "expert_inv s \<Longrightarrow> expert_inv (step ev s)"
  by (cases ev)
     (simp_all add: expert_startEditing expert_stopEditing cancelEditing_def expert_value_fn
       expert_draw expert_expertInput expert_timerFires expert_parserResponds
       expert_formatterResponds)

lemma expert_run: "expert_inv s \<Longrightarrow> expert_inv (run evs s)"
  unfolding run_def by (induction evs arbitrary: s) (simp_all add: expert_step)

lemma expert_initValue: "expert_inv s \<Longrightarrow> expert_inv (snd (u_initValue h v s))"
  unfolding u_initValue_def
  by (auto intro!: expert_andThen simp: expert_value_fn expert_updateExpertConstructor
      expert_draw)

lemma expert_create: "expert_inv (snd (u_create opts ns html))"
proof -
  have p: "expert_inv (prototype opts ns h)" for h
    by (simp add: prototype_def expert_inv_def)
  show ?thesis
    unfolding u_create_def Let_def
    by (auto intro!: expert_andThen simp: p expert_initValue expert_startEditing)
qed

lemma formattedValueShown_stopEditing:
  assumes "isInEditMode s" and "\<not> isInEditMode (snd (stopEditing d s))"
  shows "formattedValueShown (snd (stopEditing d s))"
proof -
  let ?r = "if truthy d then value_fn (js_of (initialValue s)) s else (Return Undefined, s)"
  let ?k = "\<lambda>(_::jsval) s1.
          (let s2 = s1\<lparr>u_initialValue := None, u_isInEditMode := False,
                       uu_lastValueCharacteristics := None\<rparr>
           in andThen (if u_expert s2 \<noteq> None then u_destroyExpert s2 else (Return (), s2))
                (\<lambda>_ s3.
                  draw [(''afterstopediting'', [Boolean (truthy d)])]
                    (s3\<lparr>document := jq_detach (dollar_value s3) (document s3)\<rparr>)))"
  have st: "stopEditing d s = andThen ?r ?k"
    using assms(1) by (simp add: stopEditing_def)
  have q: "isInEditMode (snd ?r)" using assms(1) by (simp add: isInEditMode_def)
  show ?thesis
  proof (cases ?r)
    case (Pair c b)
    show ?thesis
    proof (cases c)
      case (Return x)
      let ?s2 = "b\<lparr>u_initialValue := None, u_isInEditMode := False,
                     uu_lastValueCharacteristics := None\<rparr>"
      let ?s3 = "snd (if u_expert ?s2 \<noteq> None then u_destroyExpert ?s2 else (Return (), ?s2))"
      have "\<not> isInEditMode (?s3\<lparr>document := jq_detach (dollar_value ?s3) (document ?s3)\<rparr>)"
        by (simp add: isInEditMode_def)
      then have "formattedValueShown
          (snd (draw [(''afterstopediting'', [Boolean (truthy d)])]
             (?s3\<lparr>document := jq_detach (dollar_value ?s3) (document ?s3)\<rparr>)))"
        by (rule formattedValueShown_draw)
      moreover have "snd (?k x b)
          = snd (draw [(''afterstopediting'', [Boolean (truthy d)])]
             (?s3\<lparr>document := jq_detach (dollar_value ?s3) (document ?s3)\<rparr>))"
        unfolding Let_def
        by (subst destroy_if_expert) (simp only: andThen_Return)
      ultimately show ?thesis unfolding st Pair Return by (simp only: andThen_Return)
    next
      case (Throw e)
      then have "snd (stopEditing d s) = b" unfolding st Pair by simp
      then show ?thesis using assms(2) q unfolding Pair by simp
    qed
  qed
qed


lemma example_started:
  "isInEditMode (run [CallStartEditing] example_empty)
   \<and> map_option ex_ref (u_expert (run [CallStartEditing] example_empty)) = Some 2
   \<and> dollar_value (run [CallStartEditing] example_empty) = 1"
  by code_simp

lemma example_committed_static:
  "\<not> isInEditMode (run example_committed example_empty)
   \<and> u_formattedValue (run example_committed example_empty) = Str ''a''
   \<and> element (run example_committed example_empty) = 0"
  by code_simp

lemma example_parsed_editing:
  "isInEditMode (run (example_history @ [ParserResponds 6 (ParseDone (DV example_b))]) example_empty)"
  by code_simp


text \<open>
  Why a view without a formatted value may show older markup: the formatter fails, with
  a message, on the value committed when edit mode was left. \<open>_formattedValue\<close> is
  cleared and nothing is redrawn, so the element keeps the formatted \<open>example_a\<close>.
\<close>

lemma static_display_after_formatter_failure:
  "map fr_ref (formatRequests (run example_committed example_empty)) = [7]
   \<and> u_formattedValue (run (example_committed @ [FormatterResponds 7 (FormatFail (Str ''Bad value''))])
        example_empty) = Null
   \<and> children (document (run (example_committed @ [FormatterResponds 7 (FormatFail (Str ''Bad value''))])
        example_empty) 0) = [Markup (Str ''a'')]"
  by code_simp

section \<open>The pending timer in reachable states\<close>

text \<open>
  The hypothesis \<open>timer_inv\<close> of the debounce theorem holds in every state a widget
  reaches from its creation.
\<close>

lemma timer_inv_updates [simp]:
  "timer_inv (s\<lparr>u_value := v\<rparr>) = timer_inv s"
  "timer_inv (s\<lparr>u_formattedValue := fv\<rparr>) = timer_inv s"
  "timer_inv (s\<lparr>u_textValue := tv\<rparr>) = timer_inv s"
  "timer_inv (s\<lparr>u_initialValue := iv\<rparr>) = timer_inv s"
  "timer_inv (s\<lparr>u_isInEditMode := m\<rparr>) = timer_inv s"
  "timer_inv (s\<lparr>u_expert := ex\<rparr>) = timer_inv s"
  "timer_inv (s\<lparr>u_expertConstructor := c\<rparr>) = timer_inv s"
  "timer_inv (s\<lparr>uu_lastUpdateValue := lu\<rparr>) = timer_inv s"
  "timer_inv (s\<lparr>uu_lastValueCharacteristics := lc\<rparr>) = timer_inv s"
  "timer_inv (s\<lparr>document := d\<rparr>) = timer_inv s"
  "timer_inv (s\<lparr>parseRequests := ps\<rparr>) = timer_inv s"
  "timer_inv (s\<lparr>formatRequests := fs\<rparr>) = timer_inv s"
  "timer_inv (s\<lparr>nextRef := n\<rparr>) = timer_inv s"
  "timer_inv (s\<lparr>triggered := g\<rparr>) = timer_inv s"
  by (simp_all add: timer_inv_def)

lemma timer_inv_valued: "valued a = valued b \<Longrightarrow> timer_inv a = timer_inv b"
  by (simp add: valued_def timer_inv_def)

lemmas timer_andThen = andThen_preserves [where P = timer_inv]

lemmas timer_draw [simp] = timer_inv_valued [OF valued_draw]
lemmas timer_drawContent [simp] = timer_inv_valued [OF valued_drawContent]
lemmas timer_drawContent_then [simp] = timer_inv_valued [OF valued_drawContent_then]
lemmas timer_formatValue [simp] = timer_inv_valued [OF valued_formatValue]
lemmas timer_destroyExpert [simp] = timer_inv_valued [OF valued_destroyExpert]
lemmas timer_renderError [simp] = timer_inv_valued [OF valued_renderError]
lemmas timer_trigger [simp] = timer_inv_valued [OF valued_trigger]
lemmas timer_value_fn [simp] = timer_inv_valued [OF valued_value_fn]
lemmas timer_updateValue_callbacks [simp] = timer_inv_valued [OF valued_updateValue_callbacks]
lemmas timer_updateExpertConstructor [simp] = timer_inv_valued [OF valued_updateExpertConstructor]

lemma timer_startEditing: "timer_inv (snd (startEditing s)) = timer_inv s"
  by (simp add: startEditing_def Let_def)

lemma timer_stopEditing: "timer_inv s \<Longrightarrow> timer_inv (snd (stopEditing d s))"
  unfolding stopEditing_def
  by (auto intro!: timer_andThen simp: Let_def)

lemma timer_updateValue_format_callbacks [simp]:
  "timer_inv (snd (updateValue_format_callbacks p s)) = timer_inv s"
  by (cases p) (simp_all add: updateValue_format_callbacks_def)

lemma timer_setValue_callbacks [simp]:
  "timer_inv (snd (setValue_callbacks p s)) = timer_inv s"
  by (cases p) (simp_all add: setValue_callbacks_def)

lemma timer_parserResponds: "timer_inv s \<Longrightarrow> timer_inv (snd (parserResponds r response s))"
  unfolding parserResponds_def
  by (auto intro!: timer_andThen simp: Let_def split: option.splits parseResponse.splits)

lemma timer_formatterResponds:
  "timer_inv s \<Longrightarrow> timer_inv (snd (formatterResponds r response s))"
  unfolding formatterResponds_def
  by (auto intro!: timer_andThen simp: Let_def
      split: option.splits formatResponse.splits formatCallbacks.splits promise.splits)

lemma timer_timerFires: "timer_inv s \<Longrightarrow> timer_inv (timerFires r s)"
  by (auto simp: timerFires_def Let_def timer_inv_def list_all_iff split: option.splits)

lemma timer_parseValue: "timer_inv s \<Longrightarrow> timer_inv (snd (u_parseValue s))"
proof -
  assume inv: "timer_inv s"
  have c: "timer_inv (clearTimeout r t)" if "timer_inv t" for r t
    using that by (auto simp: clearTimeout_def timer_inv_def list_all_iff)
  have e: "timers (clearTimeout r t) = []" if "timer_inv t" "u_parseTimer t = Some r" for r t
    using that timer_inv_filter [of t r] by (simp add: clearTimeout_def)
  show ?thesis
    using inv unfolding u_parseValue_def
    by (auto simp: Let_def u_trigger_def u_instantiateParser_def c e timer_inv_None
        split: option.splits store.splits)
       (auto simp: timer_inv_def)
qed

lemma timer_updateValue: "timer_inv s \<Longrightarrow> timer_inv (snd (u_updateValue s))"
  unfolding u_updateValue_def
  by (auto intro!: timer_andThen simp: timer_parseValue)

lemma timer_viewNotifier_change: "timer_inv s \<Longrightarrow> timer_inv (snd (viewNotifier_change s))"
  unfolding viewNotifier_change_def
  by (auto intro!: timer_andThen simp: timer_updateValue split: option.splits)

lemma timer_expertInput: "timer_inv s \<Longrightarrow> timer_inv (snd (expertInput rawValue cs s))"
  unfolding expertInput_def
  by (auto simp: timer_viewNotifier_change split: option.splits)

lemma timer_step: "timer_inv s \<Longrightarrow> timer_inv (step ev s)"
  by (cases ev)
     (simp_all add: timer_startEditing timer_stopEditing cancelEditing_def timer_expertInput
       timer_timerFires timer_parserResponds timer_formatterResponds)

lemma timer_run: "timer_inv s \<Longrightarrow> timer_inv (run evs s)"
  unfolding run_def by (induction evs arbitrary: s) (simp_all add: timer_step)

lemma timer_create: "timer_inv (snd (u_create opts ns html))"
proof -
  have p: "timer_inv (prototype opts ns h)" for h by (simp add: prototype_def timer_inv_def)
  show ?thesis
    unfolding u_create_def Let_def u_initValue_def
    by (auto intro!: timer_andThen simp: p timer_startEditing)
qed

lemma timer_inv_reachable: "timer_inv (run evs (snd (u_create opts ns html)))"
  by (rule timer_run) (rule timer_create)

section \<open>Fresh references in reachable states\<close>

text \<open>
  In every state a widget reaches from its creation, the next reference is not that of
  a request already with the formatter (the hypothesis of the round trip in C7).
\<close>

lemma fresh_inv_updates [simp]:
  "fresh_inv (s\<lparr>u_value := v\<rparr>) = fresh_inv s"
  "fresh_inv (s\<lparr>u_formattedValue := fv\<rparr>) = fresh_inv s"
  "fresh_inv (s\<lparr>u_textValue := tv\<rparr>) = fresh_inv s"
  "fresh_inv (s\<lparr>u_initialValue := iv\<rparr>) = fresh_inv s"
  "fresh_inv (s\<lparr>u_isInEditMode := m\<rparr>) = fresh_inv s"
  "fresh_inv (s\<lparr>u_expert := ex\<rparr>) = fresh_inv s"
  "fresh_inv (s\<lparr>u_expertConstructor := c\<rparr>) = fresh_inv s"
  "fresh_inv (s\<lparr>u_parseTimer := pt\<rparr>) = fresh_inv s"
  "fresh_inv (s\<lparr>uu_lastUpdateValue := lu\<rparr>) = fresh_inv s"
  "fresh_inv (s\<lparr>uu_lastValueCharacteristics := lc\<rparr>) = fresh_inv s"
  "fresh_inv (s\<lparr>document := d\<rparr>) = fresh_inv s"
  "fresh_inv (s\<lparr>timers := ts\<rparr>) = fresh_inv s"
  "fresh_inv (s\<lparr>parseRequests := ps\<rparr>) = fresh_inv s"
  "fresh_inv (s\<lparr>triggered := g\<rparr>) = fresh_inv s"
  by (simp_all add: fresh_inv_def)

lemma fresh_next [simp]: "fresh_inv s \<Longrightarrow> fresh_inv (s\<lparr>nextRef := Suc (nextRef s)\<rparr>)"
  by (auto simp: fresh_inv_def list_all_iff)

lemma fresh_request [simp]:
  "fresh_inv s \<Longrightarrow> fr_ref q = Suc (nextRef s) \<Longrightarrow>
   fresh_inv (s\<lparr>nextRef := Suc (nextRef s), formatRequests := formatRequests s @ [q]\<rparr>)"
  by (auto simp: fresh_inv_def list_all_iff)

lemma fresh_filter [simp]:
  "fresh_inv s \<Longrightarrow> fresh_inv (s\<lparr>formatRequests := filter P (formatRequests s)\<rparr>)"
  by (auto simp: fresh_inv_def list_all_iff)

lemmas fresh_andThen = andThen_preserves [where P = fresh_inv]

lemma fresh_trigger [simp]: "fresh_inv (u_trigger n a s) = fresh_inv s"
  by (simp add: u_trigger_def)

lemma fresh_fire [simp]: "fresh_inv (fire cbs s) = fresh_inv s"
  by (simp add: fire_def)

lemma fresh_renderError [simp]: "fresh_inv (u_renderError m s) = fresh_inv s"
  by (simp add: u_renderError_def split: option.splits)

lemma fresh_destroyExpert [simp]: "fresh_inv (snd (u_destroyExpert s)) = fresh_inv s"
  by (simp add: u_destroyExpert_def split: option.splits)

lemma fresh_updateExpert [simp]: "fresh_inv s \<Longrightarrow> fresh_inv (snd (u_updateExpert s))"
  unfolding u_updateExpert_def
  by (auto intro!: fresh_andThen simp: Let_def split: option.splits)
     (auto simp: fresh_inv_def list_all_iff le_SucI)

lemma fresh_drawStaticContent [simp]: "fresh_inv (drawStaticContent s) = fresh_inv s"
  by (simp add: drawStaticContent_def)

lemma fresh_drawContent_then [simp]:
  "fresh_inv s \<Longrightarrow> fresh_inv (snd (drawContent_then cbs s))"
  unfolding drawContent_then_def
  by (auto intro!: fresh_andThen simp: Let_def split: option.splits)

lemma fresh_updateTextValue [simp]:
  "fresh_inv s \<Longrightarrow> fresh_inv (snd (u_updateTextValue cbs s))"
  unfolding u_updateTextValue_def
  by (auto intro!: fresh_andThen simp: Let_def split: option.splits)

lemma fresh_drawContent [simp]: "fresh_inv s \<Longrightarrow> fresh_inv (snd (drawContent cbs s))"
  unfolding drawContent_def
  by (auto intro!: fresh_andThen)

lemma fresh_draw [simp]: "fresh_inv s \<Longrightarrow> fresh_inv (snd (draw cbs s))"
  unfolding draw_def by (simp add: Let_def)

lemma fresh_formatValue [simp]: "fresh_inv s \<Longrightarrow> fresh_inv (snd (u_formatValue v c s))"
  unfolding u_formatValue_def
  by (auto intro!: fresh_andThen simp: Let_def)

lemma fresh_updateExpertConstructor [simp]:
  "fresh_inv (snd (u_updateExpertConstructor s)) = fresh_inv s"
  by (simp add: u_updateExpertConstructor_def Let_def split: store.splits)

lemma fresh_setValue [simp]: "fresh_inv s \<Longrightarrow> fresh_inv (snd (u_setValue v s))"
  unfolding u_setValue_def
  by (auto intro!: fresh_andThen split: option.splits)

lemma fresh_value_fn [simp]: "fresh_inv s \<Longrightarrow> fresh_inv (snd (value_fn v s))"
  unfolding value_fn_def
  by (auto intro!: fresh_andThen)

lemma fresh_startEditing [simp]: "fresh_inv s \<Longrightarrow> fresh_inv (snd (startEditing s))"
  by (simp add: startEditing_def Let_def)

lemma fresh_stopEditing [simp]: "fresh_inv s \<Longrightarrow> fresh_inv (snd (stopEditing d s))"
  unfolding stopEditing_def
  by (auto intro!: fresh_andThen simp: Let_def)

lemma fresh_updateValue_callbacks [simp]:
  "fresh_inv s \<Longrightarrow> fresh_inv (snd (updateValue_callbacks p s))"
  by (cases p) (auto simp: updateValue_callbacks_def Let_def split: option.splits)

lemma fresh_updateValue_format_callbacks [simp]:
  "fresh_inv s \<Longrightarrow> fresh_inv (snd (updateValue_format_callbacks p s))"
  by (cases p) (auto simp: updateValue_format_callbacks_def)

lemma fresh_setValue_callbacks [simp]:
  "fresh_inv s \<Longrightarrow> fresh_inv (snd (setValue_callbacks p s))"
  by (cases p) (auto simp: setValue_callbacks_def)

lemma fresh_parserResponds [simp]:
  "fresh_inv s \<Longrightarrow> fresh_inv (snd (parserResponds r response s))"
  unfolding parserResponds_def
  by (auto intro!: fresh_andThen simp: Let_def split: option.splits parseResponse.splits)

lemma fresh_formatterResponds [simp]:
  "fresh_inv s \<Longrightarrow> fresh_inv (snd (formatterResponds r response s))"
  unfolding formatterResponds_def
  by (auto intro!: fresh_andThen simp: Let_def
      split: option.splits formatResponse.splits formatCallbacks.splits promise.splits)

lemma fresh_timerFires [simp]: "fresh_inv s \<Longrightarrow> fresh_inv (timerFires r s)"
  by (auto simp: timerFires_def Let_def split: option.splits)

lemma fresh_parseValue [simp]: "fresh_inv s \<Longrightarrow> fresh_inv (snd (u_parseValue s))"
  unfolding u_parseValue_def
  by (auto intro!: fresh_andThen simp: Let_def clearTimeout_def split: option.splits)
     (auto simp: fresh_inv_def list_all_iff le_SucI)

lemma fresh_updateValue [simp]: "fresh_inv s \<Longrightarrow> fresh_inv (snd (u_updateValue s))"
  unfolding u_updateValue_def
  by (auto intro!: fresh_andThen)

lemma fresh_viewNotifier_change [simp]:
  "fresh_inv s \<Longrightarrow> fresh_inv (snd (viewNotifier_change s))"
  unfolding viewNotifier_change_def
  by (auto intro!: fresh_andThen split: option.splits)

lemma fresh_expertInput [simp]: "fresh_inv s \<Longrightarrow> fresh_inv (snd (expertInput rawValue cs s))"
  unfolding expertInput_def
  by (auto split: option.splits)

lemma fresh_step: "fresh_inv s \<Longrightarrow> fresh_inv (step ev s)"
  by (cases ev) (simp_all add: cancelEditing_def)

lemma fresh_run: "fresh_inv s \<Longrightarrow> fresh_inv (run evs s)"
  unfolding run_def by (induction evs arbitrary: s) (simp_all add: fresh_step)

lemma fresh_create: "fresh_inv (snd (u_create opts ns html))"
proof -
  have p: "fresh_inv (prototype opts ns h)" for h by (simp add: prototype_def fresh_inv_def)
  show ?thesis
    unfolding u_create_def Let_def u_initValue_def
    by (auto intro!: fresh_andThen simp: p)
qed

lemma format_refs_fresh_reachable:
  "\<forall>q \<in> set (formatRequests (run evs (snd (u_create opts ns html)))).
     fr_ref q \<noteq> Suc (nextRef (run evs (snd (u_create opts ns html))))"
proof -
  have "fresh_inv (run evs (snd (u_create opts ns html)))"
    by (rule fresh_run) (rule fresh_create)
  then show ?thesis by (auto simp: fresh_inv_def list_all_iff)
qed

section \<open>An answer that is no value\<close>

text \<open>
  An answer of the parser that is neither \<open>null\<close> nor a DataValue makes the callback
  throw, whatever \<open>__lastUpdateValue\<close> is; only the request is gone.
\<close>

lemma unexpected_parser_result:
  "find (\<lambda>q. pr_ref q = r) (parseRequests this) = Some q \<Longrightarrow>
   parsed \<noteq> Null \<Longrightarrow> \<not> instanceof_DataValue parsed \<Longrightarrow>
   parserResponds r (ParseDone parsed) this =
     (Throw (Error ''Unexpected value parser result''),
      this\<lparr>parseRequests := filter (\<lambda>q. pr_ref q \<noteq> r) (parseRequests this)\<rparr>)"
  by (simp add: parserResponds_def Let_def)

end
